theory Spec2Isabelle
  imports Complex_Main
begin

section \<open>Data model\<close>

text \<open>
  The engine is the class \<open>FastRoboEyes\<close> of \<open>src/new/roboeyes_fast.py\<close>; the class
  \<open>RoboEyes\<close> of \<open>src/roboeyes.py\<close> has the same attributes and, line for line, the
  same mutators and the same state updates in \<open>draw_eyes\<close> (it hands the drawing to an
  external imaging library, and its constructor ends with one call of \<open>draw_eyes\<close>).
  Python's unbounded integers are \<open>int\<close>. An optional argument (\<open>left=None\<close>) is an
  \<open>option\<close>. Attributes whose name starts with an underscore get the prefix \<open>p_\<close>.
\<close>

datatype error = ValueError | ZeroDivisionError | IndexError

text \<open>
  A call either returns the new state (\<open>Inr\<close>) or raises (\<open>Inl\<close>); a raise carries the
  state the object has at that moment, since the assignments made before the raise stay.
\<close>

type_synonym 'a result = "(error \<times> 'a) + 'a"

definition state_of :: "'a result \<Rightarrow> 'a" where
  "state_of r = (case r of Inl (e, s) \<Rightarrow> s | Inr s \<Rightarrow> s)"

definition raises :: "'a result \<Rightarrow> bool" where
  "raises r = (case r of Inl x \<Rightarrow> True | Inr s \<Rightarrow> False)"

type_synonym color = "nat \<times> nat \<times> nat"

text \<open>
  The frame buffer is a NumPy array of \<open>screen_height\<close> rows and \<open>screen_width\<close> columns.
  The code never reads it; it only assigns to it, in three forms. The buffer is kept as
  the list of the assignments made so far, oldest first; \<open>pixel_at\<close> below gives the
  colour a pixel has after them. \<open>Fill c\<close> is \<^verbatim>\<open>buffer[:] = c\<close>,
  \<open>Rect y1 y2 x1 x2 c\<close> is \<^verbatim>\<open>buffer[y1:y2, x1:x2] = c\<close> and
  \<open>Row py x_start x_end c\<close> is \<^verbatim>\<open>buffer[py, x_start:x_end] = c\<close>.
\<close>

datatype assignment =
    Fill color
  | Rect int int int int color
  | Row int int int color

type_synonym buffer = "assignment list"

record roboeyes =
  display :: bool
  screen_width :: int
  screen_height :: int
  bgcolor :: color
  fgcolor :: color
  buffer :: buffer
  fps_timer :: int
  frame_interval :: int
  p_position :: "int option"
  p_mood :: int
  tired :: bool
  angry :: bool
  happy :: bool
  p_curious :: bool
  p_cyclops :: bool
  eye_l_open :: bool
  eye_r_open :: bool
  space_between_default :: int
  eye_l_width_default :: int
  eye_l_height_default :: int
  eye_r_width_default :: int
  eye_r_height_default :: int
  eye_l_border_radius_default :: int
  eye_r_border_radius_default :: int
  eye_l_width_current :: int
  eye_l_height_current :: int
  eye_r_width_current :: int
  eye_r_height_current :: int
  eye_l_border_radius_current :: int
  eye_r_border_radius_current :: int
  space_between_current :: int
  eye_l_width_next :: int
  eye_l_height_next :: int
  eye_r_width_next :: int
  eye_r_height_next :: int
  eye_l_border_radius_next :: int
  eye_r_border_radius_next :: int
  space_between_next :: int
  eye_l_height_offset :: int
  eye_r_height_offset :: int
  eye_l_x_default :: int
  eye_l_y_default :: int
  eye_l_x :: int
  eye_l_y :: int
  eye_l_x_next :: int
  eye_l_y_next :: int
  eye_r_x_default :: int
  eye_r_y_default :: int
  eye_r_x :: int
  eye_r_y :: int
  eye_r_x_next :: int
  eye_r_y_next :: int
  eyelids_height_max :: int
  eyelids_tired_height :: int
  eyelids_tired_height_next :: int
  eyelids_angry_height :: int
  eyelids_angry_height_next :: int
  eyelids_happy_bottom_offset :: int
  eyelids_happy_bottom_offset_next :: int
  h_flicker :: bool
  h_flicker_amplitude :: int
  h_flicker_alternate :: bool
  v_flicker :: bool
  v_flicker_amplitude :: int
  v_flicker_alternate :: bool
  autoblinker :: bool
  blink_interval :: int
  blink_interval_variation :: int
  blink_timer :: int
  idle :: bool
  idle_interval :: int
  idle_interval_variation :: int
  idle_animation_timer :: int
  p_confused :: bool
  confused_animation_timer :: int
  confused_animation_duration :: int
  confused_toggle :: bool
  p_laugh :: bool
  laugh_animation_timer :: int
  laugh_animation_duration :: int
  laugh_toggle :: bool

section \<open>Constants\<close>

definition DEFAULT :: int where "DEFAULT = 0"
definition TIRED :: int where "TIRED = 1"
definition ANGRY :: int where "ANGRY = 2"
definition HAPPY :: int where "HAPPY = 3"
definition FROZEN :: int where "FROZEN = 4"
definition SCARY :: int where "SCARY = 5"
definition CURIOUS :: int where "CURIOUS = 6"
definition SAD :: int where "SAD = 7"

definition N :: int where "N = 1"
definition NE :: int where "NE = 2"
definition E :: int where "E = 3"
definition SE :: int where "SE = 4"
definition S :: int where "S = 5"
definition SW :: int where "SW = 6"
definition W :: int where "W = 7"
definition NW :: int where "NW = 8"

lemmas mood_defs = DEFAULT_def TIRED_def ANGRY_def HAPPY_def FROZEN_def SCARY_def CURIOUS_def SAD_def
lemmas dir_defs = N_def NE_def E_def SE_def S_def SW_def W_def NW_def

section \<open>Constructor\<close>

text \<open>
  \<^verbatim>\<open>int(n / 2)\<close> on an integer \<open>n\<close>: true division, then truncation toward zero.
\<close>

definition int_half :: "int \<Rightarrow> int" where
  "int_half n = (if 0 \<le> n then n div 2 else - ((- n) div 2))"

text \<open>
  \<open>FastRoboEyes.__init__\<close>. \<^verbatim>\<open>np.zeros((height, width, 3))\<close> raises \<open>ValueError\<close> on a
  negative dimension and \<^verbatim>\<open>1000 // frame_rate\<close> raises \<open>ZeroDivisionError\<close> on 0; no
  object exists then. \<open>fresh\<close> is the object a successful construction gives. The attribute \<open>last_update\<close> (a clock reading that nothing reads)
  and the colour tuples kept beside the colour arrays are left out.
\<close>

definition fresh ::
  "bool \<Rightarrow> int \<Rightarrow> int \<Rightarrow> int \<Rightarrow> color \<Rightarrow> color \<Rightarrow> roboeyes" where
  "fresh disp width height frame_rate bg fg =
    (let lx = int_half (width - (36 + 10 + 36));
         ly = int_half (height - 36)
     in \<lparr>
     display = disp,
     screen_width = width,
     screen_height = height,
     bgcolor = bg,
     fgcolor = fg,
     buffer = [Fill bg],
     fps_timer = 0,
     frame_interval = 1000 div frame_rate,
     p_position = Some 0,
     p_mood = DEFAULT,
     tired = False,
     angry = False,
     happy = False,
     p_curious = False,
     p_cyclops = False,
     eye_l_open = False,
     eye_r_open = False,
     space_between_default = 10,
     eye_l_width_default = 36,
     eye_l_height_default = 36,
     eye_r_width_default = 36,
     eye_r_height_default = 36,
     eye_l_border_radius_default = 8,
     eye_r_border_radius_default = 8,
     eye_l_width_current = 36,
     eye_l_height_current = 1,
     eye_r_width_current = 36,
     eye_r_height_current = 1,
     eye_l_border_radius_current = 8,
     eye_r_border_radius_current = 8,
     space_between_current = 10,
     eye_l_width_next = 36,
     eye_l_height_next = 36,
     eye_r_width_next = 36,
     eye_r_height_next = 36,
     eye_l_border_radius_next = 8,
     eye_r_border_radius_next = 8,
     space_between_next = 10,
     eye_l_height_offset = 0,
     eye_r_height_offset = 0,
     eye_l_x_default = lx,
     eye_l_y_default = ly,
     eye_l_x = lx,
     eye_l_y = ly,
     eye_l_x_next = lx,
     eye_l_y_next = ly,
     eye_r_x_default = lx + 36 + 10,
     eye_r_y_default = ly,
     eye_r_x = lx + 36 + 10,
     eye_r_y = ly,
     eye_r_x_next = lx + 36 + 10,
     eye_r_y_next = ly,
     eyelids_height_max = int_half 36,
     eyelids_tired_height = 0,
     eyelids_tired_height_next = 0,
     eyelids_angry_height = 0,
     eyelids_angry_height_next = 0,
     eyelids_happy_bottom_offset = 0,
     eyelids_happy_bottom_offset_next = 0,
     h_flicker = False,
     h_flicker_amplitude = 0,
     h_flicker_alternate = False,
     v_flicker = False,
     v_flicker_amplitude = 0,
     v_flicker_alternate = False,
     autoblinker = False,
     blink_interval = 3,
     blink_interval_variation = 2,
     blink_timer = 0,
     idle = False,
     idle_interval = 1,
     idle_interval_variation = 3,
     idle_animation_timer = 0,
     p_confused = False,
     confused_animation_timer = 0,
     confused_animation_duration = 500,
     confused_toggle = True,
     p_laugh = False,
     laugh_animation_timer = 0,
     laugh_animation_duration = 500,
     laugh_toggle = True
   \<rparr>)"

definition init ::
  "bool \<Rightarrow> int \<Rightarrow> int \<Rightarrow> int \<Rightarrow> color \<Rightarrow> color \<Rightarrow> error + roboeyes" where
  "init disp width height frame_rate bg fg =
    (if height < 0 \<or> width < 0 then Inl ValueError
     else if frame_rate = 0 then Inl ZeroDivisionError
     else Inr (fresh disp width height frame_rate bg fg))"

section \<open>Public methods\<close>

definition set_framerate :: "int \<Rightarrow> roboeyes \<Rightarrow> roboeyes result" where
  "set_framerate fps s =
    (if fps = 0 then Inl (ZeroDivisionError, s)
     else Inr (s\<lparr>frame_interval := 1000 div fps\<rparr>))"

definition eyes_width :: "int option \<Rightarrow> int option \<Rightarrow> roboeyes \<Rightarrow> roboeyes" where
  "eyes_width left_eye right_eye s =
    (let s1 = (case left_eye of None \<Rightarrow> s
                | Some v \<Rightarrow> s\<lparr>eye_l_width_next := v, eye_l_width_default := v\<rparr>)
     in (case right_eye of None \<Rightarrow> s1
          | Some v \<Rightarrow> s1\<lparr>eye_r_width_next := v, eye_r_width_default := v\<rparr>))"

definition eyes_height :: "int option \<Rightarrow> int option \<Rightarrow> roboeyes \<Rightarrow> roboeyes" where
  "eyes_height left_eye right_eye s =
    (let s1 = (case left_eye of None \<Rightarrow> s
                | Some v \<Rightarrow> s\<lparr>eye_l_height_next := v, eye_l_height_default := v\<rparr>)
     in (case right_eye of None \<Rightarrow> s1
          | Some v \<Rightarrow> s1\<lparr>eye_r_height_next := v, eye_r_height_default := v\<rparr>))"

definition eyes_radius :: "int option \<Rightarrow> int option \<Rightarrow> roboeyes \<Rightarrow> roboeyes" where
  "eyes_radius left_eye right_eye s =
    (let s1 = (case left_eye of None \<Rightarrow> s
                | Some v \<Rightarrow> s\<lparr>eye_l_border_radius_next := v, eye_l_border_radius_default := v\<rparr>)
     in (case right_eye of None \<Rightarrow> s1
          | Some v \<Rightarrow> s1\<lparr>eye_r_border_radius_next := v, eye_r_border_radius_default := v\<rparr>))"

definition eyes_spacing :: "int \<Rightarrow> roboeyes \<Rightarrow> roboeyes" where
  "eyes_spacing space s = s\<lparr>space_between_next := space, space_between_default := space\<rparr>"

text \<open>The setter of the property \<open>mood\<close>.\<close>

definition set_mood :: "int \<Rightarrow> roboeyes \<Rightarrow> roboeyes" where
  "set_mood v s =
    s\<lparr>p_mood := v, tired := (v = TIRED), angry := (v = ANGRY), happy := (v = HAPPY)\<rparr>"

definition set_curious :: "bool \<Rightarrow> roboeyes \<Rightarrow> roboeyes" where
  "set_curious v s = s\<lparr>p_curious := v\<rparr>"

definition set_cyclops :: "bool \<Rightarrow> roboeyes \<Rightarrow> roboeyes" where
  "set_cyclops v s = s\<lparr>p_cyclops := v\<rparr>"

definition horiz_flicker :: "bool \<Rightarrow> int option \<Rightarrow> roboeyes \<Rightarrow> roboeyes" where
  "horiz_flicker enable amplitude s =
    (let s1 = s\<lparr>h_flicker := enable\<rparr>
     in (case amplitude of None \<Rightarrow> s1 | Some a \<Rightarrow> s1\<lparr>h_flicker_amplitude := a\<rparr>))"

definition vert_flicker :: "bool \<Rightarrow> int option \<Rightarrow> roboeyes \<Rightarrow> roboeyes" where
  "vert_flicker enable amplitude s =
    (let s1 = s\<lparr>v_flicker := enable\<rparr>
     in (case amplitude of None \<Rightarrow> s1 | Some a \<Rightarrow> s1\<lparr>v_flicker_amplitude := a\<rparr>))"

definition get_screen_constraint_x :: "roboeyes \<Rightarrow> int" where
  "get_screen_constraint_x s =
    screen_width s - eye_l_width_current s - space_between_current s - eye_r_width_current s"

definition get_screen_constraint_y :: "roboeyes \<Rightarrow> int" where
  "get_screen_constraint_y s = screen_height s - eye_l_height_default s"

definition set_auto_blinker :: "bool \<Rightarrow> int option \<Rightarrow> int option \<Rightarrow> roboeyes \<Rightarrow> roboeyes" where
  "set_auto_blinker active interval variation s =
    (let s1 = s\<lparr>autoblinker := active\<rparr>;
         s2 = (case interval of None \<Rightarrow> s1 | Some i \<Rightarrow> s1\<lparr>blink_interval := i\<rparr>)
     in (case variation of None \<Rightarrow> s2 | Some v \<Rightarrow> s2\<lparr>blink_interval_variation := v\<rparr>))"

definition set_idle_mode :: "bool \<Rightarrow> int option \<Rightarrow> int option \<Rightarrow> roboeyes \<Rightarrow> roboeyes" where
  "set_idle_mode active interval variation s =
    (let s1 = s\<lparr>idle := active\<rparr>;
         s2 = (case interval of None \<Rightarrow> s1 | Some i \<Rightarrow> s1\<lparr>idle_interval := i\<rparr>)
     in (case variation of None \<Rightarrow> s2 | Some v \<Rightarrow> s2\<lparr>idle_interval_variation := v\<rparr>))"

text \<open>
  The setter of the property \<open>position\<close>. The argument is any value; \<open>None\<close> and an
  integer that is no direction constant take the last branch.
\<close>

definition set_position :: "int option \<Rightarrow> roboeyes \<Rightarrow> roboeyes" where
  "set_position direction s =
    (let max_x = get_screen_constraint_x s;
         max_y = get_screen_constraint_y s;
         s1 =
          (if direction = Some N then s\<lparr>eye_l_x_next := max_x div 2, eye_l_y_next := 0\<rparr>
           else if direction = Some NE then s\<lparr>eye_l_x_next := max_x, eye_l_y_next := 0\<rparr>
           else if direction = Some E then s\<lparr>eye_l_x_next := max_x, eye_l_y_next := max_y div 2\<rparr>
           else if direction = Some SE then s\<lparr>eye_l_x_next := max_x, eye_l_y_next := max_y\<rparr>
           else if direction = Some S then s\<lparr>eye_l_x_next := max_x div 2, eye_l_y_next := max_y\<rparr>
           else if direction = Some SW then s\<lparr>eye_l_x_next := 0, eye_l_y_next := max_y\<rparr>
           else if direction = Some W then s\<lparr>eye_l_x_next := 0, eye_l_y_next := max_y div 2\<rparr>
           else if direction = Some NW then s\<lparr>eye_l_x_next := 0, eye_l_y_next := 0\<rparr>
           else s\<lparr>eye_l_x_next := max_x div 2, eye_l_y_next := max_y div 2\<rparr>)
     in s1\<lparr>p_position := direction\<rparr>)"

section \<open>Animation methods\<close>

text \<open>
  The arguments \<open>left\<close> and \<open>right\<close> are \<open>None\<close> when omitted and otherwise a truth value
  (the callers pass \<open>ON\<close>). \<open>close\<close>, \<open>open\<close> and \<open>blink\<close> test them with
  \<^verbatim>\<open>is None\<close>; \<open>wink\<close> tests their truth.
\<close>

definition close :: "bool option \<Rightarrow> bool option \<Rightarrow> roboeyes \<Rightarrow> roboeyes" where
  "close left right s =
    (if left = None \<and> right = None then
       s\<lparr>eye_l_height_next := 1, eye_r_height_next := 1, eye_l_open := False, eye_r_open := False\<rparr>
     else
       let s1 = (if left \<noteq> None then s\<lparr>eye_l_height_next := 1, eye_l_open := False\<rparr> else s)
       in (if right \<noteq> None then s1\<lparr>eye_r_height_next := 1, eye_r_open := False\<rparr> else s1))"

definition open_eyes :: "bool option \<Rightarrow> bool option \<Rightarrow> roboeyes \<Rightarrow> roboeyes" where
  "open_eyes left right s =
    (if left = None \<and> right = None then s\<lparr>eye_l_open := True, eye_r_open := True\<rparr>
     else
       let s1 = (if left \<noteq> None then s\<lparr>eye_l_open := True\<rparr> else s)
       in (if right \<noteq> None then s1\<lparr>eye_r_open := True\<rparr> else s1))"

definition blink :: "bool option \<Rightarrow> bool option \<Rightarrow> roboeyes \<Rightarrow> roboeyes" where
  "blink left right s =
    (if left = None \<and> right = None then open_eyes None None (close None None s)
     else open_eyes left right (close left right s))"

definition confuse :: "roboeyes \<Rightarrow> roboeyes" where
  "confuse s = s\<lparr>p_confused := True\<rparr>"

definition laugh :: "roboeyes \<Rightarrow> roboeyes" where
  "laugh s = s\<lparr>p_laugh := True\<rparr>"

text \<open>Python's \<^verbatim>\<open>left or right\<close> is true when one of the two is a true value.\<close>

definition truthy :: "bool option \<Rightarrow> bool" where
  "truthy a = (a = Some True)"

definition wink :: "bool option \<Rightarrow> bool option \<Rightarrow> roboeyes \<Rightarrow> roboeyes result" where
  "wink left right s =
    (if \<not> (truthy left \<or> truthy right) then Inl (ValueError, s)
     else Inr (blink left right (s\<lparr>autoblinker := False, idle := False\<rparr>)))"

section \<open>Sequencing calls that may raise\<close>

definition returns :: "('a \<Rightarrow> 'a) \<Rightarrow> 'a \<Rightarrow> 'a result" where
  "returns f s = Inr (f s)"

text \<open>Statements run one after the other; the first raise ends the run.\<close>

fun in_order :: "('a \<Rightarrow> 'a result) list \<Rightarrow> 'a \<Rightarrow> 'a result" where
  "in_order [] s = Inr s"
| "in_order (f # fs) s = (case f s of Inl x \<Rightarrow> Inl x | Inr s' \<Rightarrow> in_order fs s')"

section \<open>Assignments to the buffer\<close>

text \<open>
  \<^verbatim>\<open>buffer[y1:y2, x1:x2] = color\<close> never raises: NumPy cuts a slice to the array.
  \<^verbatim>\<open>buffer[py, x_start:x_end] = color\<close> raises \<open>IndexError\<close> when the row index \<open>py\<close> is
  not in \<open>[-height, height)\<close>.
\<close>

definition rect_assign :: "int \<Rightarrow> int \<Rightarrow> int \<Rightarrow> int \<Rightarrow> color \<Rightarrow> buffer \<Rightarrow> buffer" where
  "rect_assign y1 y2 x1 x2 c buf = buf @ [Rect y1 y2 x1 x2 c]"

definition row_assign :: "int \<Rightarrow> int \<Rightarrow> int \<Rightarrow> int \<Rightarrow> color \<Rightarrow> buffer \<Rightarrow> buffer result" where
  "row_assign sh py x_start x_end c buf =
    (if py < - sh \<or> sh \<le> py then Inl (IndexError, buf)
     else Inr (buf @ [Row py x_start x_end c]))"

text \<open>
  What an assignment does to a \<open>sh \<times> sw\<close> array. A slice bound \<open>i\<close> on an axis of
  length \<open>n\<close> counts from the end when negative and is cut to \<open>[0, n]\<close>; a negative row
  index counts from the end.
\<close>

definition slice_bound :: "int \<Rightarrow> int \<Rightarrow> int" where
  "slice_bound n i = (if i < 0 then max 0 (i + n) else min i n)"

fun covers :: "int \<Rightarrow> int \<Rightarrow> assignment \<Rightarrow> int \<Rightarrow> int \<Rightarrow> bool" where
  "covers sw sh (Fill c) row col = (0 \<le> row \<and> row < sh \<and> 0 \<le> col \<and> col < sw)"
| "covers sw sh (Rect y1 y2 x1 x2 c) row col =
    (slice_bound sh y1 \<le> row \<and> row < slice_bound sh y2
     \<and> slice_bound sw x1 \<le> col \<and> col < slice_bound sw x2)"
| "covers sw sh (Row py x_start x_end c) row col =
    (row = (if py < 0 then py + sh else py) \<and> 0 \<le> row \<and> row < sh
     \<and> slice_bound sw x_start \<le> col \<and> col < slice_bound sw x_end)"

fun color_of :: "assignment \<Rightarrow> color" where
  "color_of (Fill c) = c"
| "color_of (Rect y1 y2 x1 x2 c) = c"
| "color_of (Row py x_start x_end c) = c"

text \<open>The colour of pixel \<open>(row, col)\<close> after the assignments; \<open>None\<close> when none reached it.\<close>

definition pixel_at :: "int \<Rightarrow> int \<Rightarrow> buffer \<Rightarrow> int \<Rightarrow> int \<Rightarrow> color option" where
  "pixel_at sw sh buf row col =
    fold (\<lambda>a acc. if covers sw sh a row col then Some (color_of a) else acc) buf None"

definition filled_pixels :: "int \<Rightarrow> int \<Rightarrow> buffer \<Rightarrow> color \<Rightarrow> (int \<times> int) set" where
  "filled_pixels sw sh buf c = {(row, col). pixel_at sw sh buf row col = Some c}"

text \<open>
  An assignment is clipped when its bounds are written inside the array as they stand:
  a non-empty extent, no negative index, no bound beyond the array.
\<close>

fun clipped :: "int \<Rightarrow> int \<Rightarrow> assignment \<Rightarrow> bool" where
  "clipped sw sh (Fill c) = True"
| "clipped sw sh (Rect y1 y2 x1 x2 c) =
    (0 \<le> y1 \<and> y1 < y2 \<and> y2 \<le> sh \<and> 0 \<le> x1 \<and> x1 < x2 \<and> x2 \<le> sw)"
| "clipped sw sh (Row py x_start x_end c) =
    (0 \<le> py \<and> py < sh \<and> 0 \<le> x_start \<and> x_start < x_end \<and> x_end \<le> sw)"

section \<open>Drawing helpers\<close>

text \<open>
  The drawing methods of \<open>FastRoboEyes\<close> read \<open>self.screen_width\<close> and
  \<open>self.screen_height\<close> and assign to \<open>self.buffer\<close>; here these are the arguments
  \<open>sw\<close>, \<open>sh\<close> and \<open>buf\<close>. The conversions \<^verbatim>\<open>int(x)\<close> of the integer arguments do
  nothing.

  \<open>draw_rounded_rect\<close> writes the same block four times: cut a rectangle
  \<open>[ya, yb) \<times> [xa, xb)\<close> to the screen and assign it if something is left.
\<close>

definition clip_rect :: "int \<Rightarrow> int \<Rightarrow> int \<Rightarrow> int \<Rightarrow> int \<Rightarrow> int \<Rightarrow> color \<Rightarrow> buffer \<Rightarrow> buffer" where
  "clip_rect sw sh ya yb xa xb c buf =
    (let y1 = max 0 ya; y2 = min sh yb; x1 = max 0 xa; x2 = min sw xb
     in if x2 > x1 \<and> y2 > y1 then rect_assign y1 y2 x1 x2 c buf else buf)"

text \<open>
  \<^verbatim>\<open>int(np.sqrt(n))\<close> for \<open>n \<ge> 0\<close>: the floor of the square root (NumPy computes it in
  double precision, which gives the exact floor on the integers a screen can hold).
\<close>

primrec sqrt_search :: "nat \<Rightarrow> nat \<Rightarrow> nat" where
  "sqrt_search n 0 = 0"
| "sqrt_search n (Suc k) = (if Suc k * Suc k \<le> n then Suc k else sqrt_search n k)"

definition int_sqrt :: "int \<Rightarrow> int" where
  "int_sqrt n = int (sqrt_search (nat n) (nat n))"

text \<open>The loop of \<open>_draw_circle_corner\<close> over the values \<open>dy\<close> of \<^verbatim>\<open>range(-r, r + 1)\<close>.\<close>

fun corner_rows ::
  "int \<Rightarrow> int \<Rightarrow> int \<Rightarrow> int \<Rightarrow> int \<Rightarrow> color \<Rightarrow> string \<Rightarrow> int list \<Rightarrow> buffer \<Rightarrow> buffer result" where
  "corner_rows sw sh cx cy r c corner [] buf = Inr buf"
| "corner_rows sw sh cx cy r c corner (dy # dys) buf =
    (let py = cy + dy in
     if py < 0 \<or> py \<ge> sh then corner_rows sw sh cx cy r c corner dys buf
     else
       let dx_max = int_sqrt (max 0 (r * r - dy * dy));
           x_start = (if corner = ''tl'' then max 0 (cx - dx_max)
                      else if corner = ''tr'' then max 0 cx
                      else if corner = ''bl'' then max 0 (cx - dx_max)
                      else max 0 cx);
           x_end = (if corner = ''tl'' then min sw (cx + 1)
                    else if corner = ''tr'' then min sw (cx + dx_max + 1)
                    else if corner = ''bl'' then min sw (cx + 1)
                    else min sw (cx + dx_max + 1))
       in if x_end > x_start then
            (case row_assign sh py x_start x_end c buf of
               Inl x \<Rightarrow> Inl x
             | Inr b \<Rightarrow> corner_rows sw sh cx cy r c corner dys b)
          else corner_rows sw sh cx cy r c corner dys buf)"

definition draw_circle_corner ::
  "int \<Rightarrow> int \<Rightarrow> int \<Rightarrow> int \<Rightarrow> int \<Rightarrow> color \<Rightarrow> string \<Rightarrow> buffer \<Rightarrow> buffer result" where
  "draw_circle_corner sw sh cx cy r c corner buf =
    corner_rows sw sh cx cy r c corner [- r..r] buf"

definition draw_rounded_rect ::
  "int \<Rightarrow> int \<Rightarrow> int \<Rightarrow> int \<Rightarrow> int \<Rightarrow> int \<Rightarrow> int \<Rightarrow> color \<Rightarrow> buffer \<Rightarrow> buffer result" where
  "draw_rounded_rect sw sh x y w h r0 c buf =
    (let r = min r0 (min (w div 2) (h div 2)) in
     if r \<le> 0 \<or> w \<le> 0 \<or> h \<le> 0 then
       Inr (clip_rect sw sh y (y + h) x (x + w) c buf)
     else
       in_order
        [returns (clip_rect sw sh y (y + r) (x + r) (x + w - r) c),
         returns (clip_rect sw sh (y + r) (y + h - r) x (x + w) c),
         returns (clip_rect sw sh (y + h - r) (y + h) (x + r) (x + w - r) c),
         draw_circle_corner sw sh (x + r) (y + r) r c ''tl'',
         draw_circle_corner sw sh (x + w - r) (y + r) r c ''tr'',
         draw_circle_corner sw sh (x + r) (y + h - r) r c ''bl'',
         draw_circle_corner sw sh (x + w - r) (y + h - r) r c ''br''] buf)"

text \<open>
  The triangle fill computes with floats. They are taken as exact rationals here
  (\<open>0.001\<close> as \<open>1/1000\<close>); \<^verbatim>\<open>int(x)\<close> of a float truncates toward zero.
\<close>

definition py_int :: "rat \<Rightarrow> int" where
  "py_int q = (if 0 \<le> q then \<lfloor>q\<rfloor> else \<lceil>q\<rceil>)"

text \<open>The loop of \<open>_fill_bottom_flat_triangle\<close> over \<^verbatim>\<open>range(y0, y1 + 1)\<close>.\<close>

fun bottom_flat_rows ::
  "int \<Rightarrow> int \<Rightarrow> rat \<Rightarrow> rat \<Rightarrow> color \<Rightarrow> rat \<Rightarrow> rat \<Rightarrow> int list \<Rightarrow> buffer \<Rightarrow> buffer result" where
  "bottom_flat_rows sw sh invslope1 invslope2 c curx1 curx2 [] buf = Inr buf"
| "bottom_flat_rows sw sh invslope1 invslope2 c curx1 curx2 (scanlineY # ys) buf =
    (case
       (if 0 \<le> scanlineY \<and> scanlineY < sh then
          let x_start = max 0 (min (py_int curx1) (py_int curx2));
              x_end = min sw (max (py_int curx1) (py_int curx2) + 1)
          in if x_start < x_end then row_assign sh scanlineY x_start x_end c buf else Inr buf
        else Inr buf)
     of Inl x \<Rightarrow> Inl x
      | Inr b \<Rightarrow>
          bottom_flat_rows sw sh invslope1 invslope2 c
            (curx1 + invslope1) (curx2 + invslope2) ys b)"

definition fill_bottom_flat_triangle ::
  "int \<Rightarrow> int \<Rightarrow> int \<Rightarrow> int \<Rightarrow> int \<Rightarrow> int \<Rightarrow> int \<Rightarrow> int \<Rightarrow> color \<Rightarrow> buffer \<Rightarrow> buffer result" where
  "fill_bottom_flat_triangle sw sh x0 y0 x1 y1 x2 y2 c buf =
    (if y1 = y0 then Inr buf
     else
       let invslope1 = of_int (x1 - x0) / (of_int (y1 - y0) + 1 / 1000);
           invslope2 = of_int (x2 - x0) / (of_int (y2 - y0) + 1 / 1000)
       in bottom_flat_rows sw sh invslope1 invslope2 c (of_int x0) (of_int x0) [y0..y1] buf)"

text \<open>The loop of \<open>_fill_top_flat_triangle\<close> over \<^verbatim>\<open>range(y2, y0 - 1, -1)\<close>.\<close>

fun top_flat_rows ::
  "int \<Rightarrow> int \<Rightarrow> rat \<Rightarrow> rat \<Rightarrow> color \<Rightarrow> rat \<Rightarrow> rat \<Rightarrow> int list \<Rightarrow> buffer \<Rightarrow> buffer result" where
  "top_flat_rows sw sh invslope1 invslope2 c curx1 curx2 [] buf = Inr buf"
| "top_flat_rows sw sh invslope1 invslope2 c curx1 curx2 (scanlineY # ys) buf =
    (case
       (if 0 \<le> scanlineY \<and> scanlineY < sh then
          let x_start = max 0 (min (py_int curx1) (py_int curx2));
              x_end = min sw (max (py_int curx1) (py_int curx2) + 1)
          in if x_start < x_end then row_assign sh scanlineY x_start x_end c buf else Inr buf
        else Inr buf)
     of Inl x \<Rightarrow> Inl x
      | Inr b \<Rightarrow>
          top_flat_rows sw sh invslope1 invslope2 c
            (curx1 - invslope1) (curx2 - invslope2) ys b)"

definition fill_top_flat_triangle ::
  "int \<Rightarrow> int \<Rightarrow> int \<Rightarrow> int \<Rightarrow> int \<Rightarrow> int \<Rightarrow> int \<Rightarrow> int \<Rightarrow> color \<Rightarrow> buffer \<Rightarrow> buffer result" where
  "fill_top_flat_triangle sw sh x0 y0 x1 y1 x2 y2 c buf =
    (if y2 = y0 then Inr buf
     else
       let invslope1 = of_int (x2 - x0) / (of_int (y2 - y0) + 1 / 1000);
           invslope2 = of_int (x2 - x1) / (of_int (y2 - y1) + 1 / 1000)
       in top_flat_rows sw sh invslope1 invslope2 c (of_int x2) (of_int x2) (rev [y0..y2]) buf)"

text \<open>The three conditional swaps that sort the vertices by \<open>y\<close>.\<close>

definition sort_vertices ::
  "int \<Rightarrow> int \<Rightarrow> int \<Rightarrow> int \<Rightarrow> int \<Rightarrow> int \<Rightarrow> (int \<times> int) \<times> (int \<times> int) \<times> (int \<times> int)" where
  "sort_vertices x0 y0 x1 y1 x2 y2 =
    (let (p0, p1) = (if y0 > y1 then ((x1, y1), (x0, y0)) else ((x0, y0), (x1, y1)));
         (p0, p2) = (if snd p0 > y2 then ((x2, y2), p0) else (p0, (x2, y2)));
         (p1, p2) = (if snd p1 > snd p2 then (p2, p1) else (p1, p2))
     in (p0, p1, p2))"

definition fill_triangle ::
  "int \<Rightarrow> int \<Rightarrow> int \<Rightarrow> int \<Rightarrow> int \<Rightarrow> int \<Rightarrow> int \<Rightarrow> int \<Rightarrow> color \<Rightarrow> buffer \<Rightarrow> buffer result" where
  "fill_triangle sw sh a0 b0 a1 b1 a2 b2 c buf =
    (case sort_vertices a0 b0 a1 b1 a2 b2 of ((x0, y0), (x1, y1), (x2, y2)) \<Rightarrow>
      if y1 = y2 then fill_bottom_flat_triangle sw sh x0 y0 x1 y1 x2 y2 c buf
      else if y0 = y1 then fill_top_flat_triangle sw sh x0 y0 x1 y1 x2 y2 c buf
      else
        let x3 = py_int (of_int x0
                   + (of_int (y1 - y0) / (of_int (y2 - y0) + 1 / 1000)) * of_int (x2 - x0));
            y3 = y1
        in in_order
            [fill_bottom_flat_triangle sw sh x0 y0 x1 y1 x3 y3 c,
             fill_top_flat_triangle sw sh x1 y1 x3 y3 x2 y2 c] buf)"

section \<open>The tick: \<open>draw_eyes\<close>\<close>

text \<open>
  \<open>draw_eyes\<close> reads the clock once and draws random numbers; both come from outside.
  \<open>now\<close> is the clock reading in milliseconds; the \<open>rand_\<close> fields are the choices of
  the random generator for the four calls of \<^verbatim>\<open>random.randint\<close>, in the order of the
  code.
\<close>

record env =
  now :: int
  rand_blink :: int
  rand_idle_x :: int
  rand_idle_y :: int
  rand_idle :: int

text \<open>
  \<^verbatim>\<open>random.randint(a, b)\<close> raises \<open>ValueError\<close> when \<open>b < a\<close> (\<open>None\<close> here) and
  otherwise returns an integer of \<open>[a, b]\<close>: the generator's choice \<open>v\<close>, brought into
  the range.
\<close>

definition randint :: "int \<Rightarrow> int \<Rightarrow> int \<Rightarrow> int option" where
  "randint a b v = (if b < a then None else Some (a + v mod (b - a + 1)))"

text \<open>A drawing method of the engine: the helper on the engine's screen and buffer.\<close>

definition on_buffer :: "(int \<Rightarrow> int \<Rightarrow> buffer \<Rightarrow> buffer result) \<Rightarrow> roboeyes \<Rightarrow> roboeyes result" where
  "on_buffer f s =
    (case f (screen_width s) (screen_height s) (buffer s) of
       Inl (e, b) \<Rightarrow> Inl (e, s\<lparr>buffer := b\<rparr>)
     | Inr b \<Rightarrow> Inr (s\<lparr>buffer := b\<rparr>))"

text \<open>
  The body of \<open>draw_eyes\<close>, one definition for each of its commented parts, in the order
  of the code. \<^verbatim>\<open>self.buffer[:] = self.bgcolor\<close> overwrites every pixel, so the list of
  assignments starts again there.
\<close>

definition clear_buffer :: "roboeyes \<Rightarrow> roboeyes" where
  "clear_buffer s = s\<lparr>buffer := [Fill (bgcolor s)]\<rparr>"

definition curious_mode :: "roboeyes \<Rightarrow> roboeyes" where
  "curious_mode s =
    (if p_curious s then
       let s1 = (if eye_l_x_next s \<le> 10 then s\<lparr>eye_l_height_offset := 8\<rparr>
                 else if eye_l_x_next s \<ge> get_screen_constraint_x s - 10 \<and> p_cyclops s
                   then s\<lparr>eye_l_height_offset := 8\<rparr>
                 else s\<lparr>eye_l_height_offset := 0\<rparr>)
       in (if eye_r_x_next s1 \<ge> screen_width s1 - eye_r_width_current s1 - 10
             then s1\<lparr>eye_r_height_offset := 8\<rparr>
           else s1\<lparr>eye_r_height_offset := 0\<rparr>)
     else s\<lparr>eye_l_height_offset := 0, eye_r_height_offset := 0\<rparr>)"

definition interpolate_heights :: "roboeyes \<Rightarrow> roboeyes" where
  "interpolate_heights s =
    (let s1 = s\<lparr>eye_l_height_current :=
                 (eye_l_height_current s + eye_l_height_next s + eye_l_height_offset s) div 2\<rparr>;
         s2 = s1\<lparr>eye_l_y := eye_l_y s1 + (eye_l_height_default s1 - eye_l_height_current s1) div 2\<rparr>;
         s3 = s2\<lparr>eye_l_y := eye_l_y s2 - eye_l_height_offset s2 div 2\<rparr>;
         s4 = s3\<lparr>eye_r_height_current :=
                 (eye_r_height_current s3 + eye_r_height_next s3 + eye_r_height_offset s3) div 2\<rparr>;
         s5 = s4\<lparr>eye_r_y := eye_r_y s4 + (eye_r_height_default s4 - eye_r_height_current s4) div 2\<rparr>
     in s5\<lparr>eye_r_y := eye_r_y s5 - eye_r_height_offset s5 div 2\<rparr>)"

definition open_if_needed :: "roboeyes \<Rightarrow> roboeyes" where
  "open_if_needed s =
    (let s1 = (if eye_l_open s then
                 (if eye_l_height_current s \<le> 1 + eye_l_height_offset s
                    then s\<lparr>eye_l_height_next := eye_l_height_default s\<rparr> else s)
               else s)
     in (if eye_r_open s1 then
           (if eye_r_height_current s1 \<le> 1 + eye_r_height_offset s1
              then s1\<lparr>eye_r_height_next := eye_r_height_default s1\<rparr> else s1)
         else s1))"

definition interpolate_widths :: "roboeyes \<Rightarrow> roboeyes" where
  "interpolate_widths s =
    (let s1 = s\<lparr>eye_l_width_current := (eye_l_width_current s + eye_l_width_next s) div 2\<rparr>
     in s1\<lparr>eye_r_width_current := (eye_r_width_current s1 + eye_r_width_next s1) div 2\<rparr>)"

definition interpolate_spacing :: "roboeyes \<Rightarrow> roboeyes" where
  "interpolate_spacing s =
    s\<lparr>space_between_current := (space_between_current s + space_between_next s) div 2\<rparr>"

definition interpolate_positions :: "roboeyes \<Rightarrow> roboeyes" where
  "interpolate_positions s =
    (let s1 = s\<lparr>eye_l_x := (eye_l_x s + eye_l_x_next s) div 2\<rparr>;
         s2 = s1\<lparr>eye_l_y := (eye_l_y s1 + eye_l_y_next s1) div 2\<rparr>;
         s3 = s2\<lparr>eye_r_x_next :=
                 eye_l_x_next s2 + eye_l_width_current s2 + space_between_current s2\<rparr>;
         s4 = s3\<lparr>eye_r_y_next := eye_l_y_next s3\<rparr>;
         s5 = s4\<lparr>eye_r_x := (eye_r_x s4 + eye_r_x_next s4) div 2\<rparr>
     in s5\<lparr>eye_r_y := (eye_r_y s5 + eye_r_y_next s5) div 2\<rparr>)"

definition interpolate_radius :: "roboeyes \<Rightarrow> roboeyes" where
  "interpolate_radius s =
    (let s1 = s\<lparr>eye_l_border_radius_current :=
                 (eye_l_border_radius_current s + eye_l_border_radius_next s) div 2\<rparr>
     in s1\<lparr>eye_r_border_radius_current :=
             (eye_r_border_radius_current s1 + eye_r_border_radius_next s1) div 2\<rparr>)"

text \<open>
  The auto blinker calls \<open>blink()\<close> and then evaluates the new timer; \<open>randint\<close> raises
  there when \<open>blink_interval_variation\<close> is negative.
\<close>

definition auto_blink :: "env \<Rightarrow> roboeyes \<Rightarrow> roboeyes result" where
  "auto_blink ev s =
    (if autoblinker s then
       (if now ev - blink_timer s \<ge> 0 then
          let s1 = blink None None s in
          (case randint 0 (blink_interval_variation s1) (rand_blink ev) of
             None \<Rightarrow> Inl (ValueError, s1)
           | Some v \<Rightarrow>
               Inr (s1\<lparr>blink_timer := now ev + blink_interval s1 * 1000 + v * 1000\<rparr>))
        else Inr s)
     else Inr s)"

definition laughing :: "env \<Rightarrow> roboeyes \<Rightarrow> roboeyes" where
  "laughing ev s =
    (if p_laugh s then
       (if laugh_toggle s then
          (vert_flicker True (Some 5) s)\<lparr>laugh_animation_timer := now ev, laugh_toggle := False\<rparr>
        else if now ev - laugh_animation_timer s \<ge> laugh_animation_duration s then
          (vert_flicker False (Some 0) s)\<lparr>laugh_toggle := True, p_laugh := False\<rparr>
        else s)
     else s)"

definition confused :: "env \<Rightarrow> roboeyes \<Rightarrow> roboeyes" where
  "confused ev s =
    (if p_confused s then
       (if confused_toggle s then
          (horiz_flicker True (Some 20) s)\<lparr>confused_animation_timer := now ev, confused_toggle := False\<rparr>
        else if now ev - confused_animation_timer s \<ge> confused_animation_duration s then
          (horiz_flicker False (Some 0) s)\<lparr>confused_toggle := True, p_confused := False\<rparr>
        else s)
     else s)"

definition idle_mode :: "env \<Rightarrow> roboeyes \<Rightarrow> roboeyes result" where
  "idle_mode ev s =
    (if idle s then
       (if now ev - idle_animation_timer s \<ge> 0 then
          (case randint 0 (get_screen_constraint_x s) (rand_idle_x ev) of
             None \<Rightarrow> Inl (ValueError, s)
           | Some vx \<Rightarrow>
               let s1 = s\<lparr>eye_l_x_next := vx\<rparr> in
               (case randint 0 (get_screen_constraint_y s1) (rand_idle_y ev) of
                  None \<Rightarrow> Inl (ValueError, s1)
                | Some vy \<Rightarrow>
                    let s2 = s1\<lparr>eye_l_y_next := vy\<rparr> in
                    (case randint 0 (idle_interval_variation s2) (rand_idle ev) of
                       None \<Rightarrow> Inl (ValueError, s2)
                     | Some v \<Rightarrow>
                         Inr (s2\<lparr>idle_animation_timer :=
                                   now ev + idle_interval s2 * 1000 + v * 1000\<rparr>))))
        else Inr s)
     else Inr s)"

definition horizontal_flicker :: "roboeyes \<Rightarrow> roboeyes" where
  "horizontal_flicker s =
    (if h_flicker s then
       let s1 = (if h_flicker_alternate s then
                   s\<lparr>eye_l_x := eye_l_x s + h_flicker_amplitude s,
                     eye_r_x := eye_r_x s + h_flicker_amplitude s\<rparr>
                 else
                   s\<lparr>eye_l_x := eye_l_x s - h_flicker_amplitude s,
                     eye_r_x := eye_r_x s - h_flicker_amplitude s\<rparr>)
       in s1\<lparr>h_flicker_alternate := \<not> h_flicker_alternate s1\<rparr>
     else s)"

definition vertical_flicker :: "roboeyes \<Rightarrow> roboeyes" where
  "vertical_flicker s =
    (if v_flicker s then
       let s1 = (if v_flicker_alternate s then
                   s\<lparr>eye_l_y := eye_l_y s + v_flicker_amplitude s,
                     eye_r_y := eye_r_y s + v_flicker_amplitude s\<rparr>
                 else
                   s\<lparr>eye_l_y := eye_l_y s - v_flicker_amplitude s,
                     eye_r_y := eye_r_y s - v_flicker_amplitude s\<rparr>)
       in s1\<lparr>v_flicker_alternate := \<not> v_flicker_alternate s1\<rparr>
     else s)"

definition draw_left_eye :: "roboeyes \<Rightarrow> roboeyes result" where
  "draw_left_eye s =
    on_buffer (\<lambda>sw sh. draw_rounded_rect sw sh (eye_l_x s) (eye_l_y s) (eye_l_width_current s)
      (eye_l_height_current s) (eye_l_border_radius_current s) (fgcolor s)) s"

definition draw_right_eye :: "roboeyes \<Rightarrow> roboeyes result" where
  "draw_right_eye s =
    (if \<not> p_cyclops s then
       on_buffer (\<lambda>sw sh. draw_rounded_rect sw sh (eye_r_x s) (eye_r_y s) (eye_r_width_current s)
         (eye_r_height_current s) (eye_r_border_radius_current s) (fgcolor s)) s
     else Inr s)"

definition mood_transitions :: "roboeyes \<Rightarrow> roboeyes" where
  "mood_transitions s =
    (let s1 = (if tired s then
                 s\<lparr>eyelids_tired_height_next := eye_l_height_current s div 2,
                   eyelids_angry_height_next := 0\<rparr>
               else s\<lparr>eyelids_tired_height_next := 0\<rparr>);
         s2 = (if angry s1 then
                 s1\<lparr>eyelids_angry_height_next := eye_l_height_current s1 div 2,
                    eyelids_tired_height_next := 0\<rparr>
               else s1\<lparr>eyelids_angry_height_next := 0\<rparr>)
     in (if happy s2 then
           s2\<lparr>eyelids_happy_bottom_offset_next := eye_l_height_current s2 div 2\<rparr>
         else s2\<lparr>eyelids_happy_bottom_offset_next := 0\<rparr>))"

definition tired_eyelids :: "roboeyes \<Rightarrow> roboeyes result" where
  "tired_eyelids s0 =
    (let s = s0\<lparr>eyelids_tired_height :=
                 (eyelids_tired_height s0 + eyelids_tired_height_next s0) div 2\<rparr>
     in if \<not> p_cyclops s then
          in_order
           [on_buffer (\<lambda>sw sh. fill_triangle sw sh (eye_l_x s) (eye_l_y s - 1)
              (eye_l_x s + eye_l_width_current s) (eye_l_y s - 1)
              (eye_l_x s) (eye_l_y s + eyelids_tired_height s - 1) (bgcolor s)),
            on_buffer (\<lambda>sw sh. fill_triangle sw sh (eye_r_x s) (eye_r_y s - 1)
              (eye_r_x s + eye_r_width_current s) (eye_r_y s - 1)
              (eye_r_x s + eye_r_width_current s) (eye_r_y s + eyelids_tired_height s - 1)
              (bgcolor s))] s
        else
          in_order
           [on_buffer (\<lambda>sw sh. fill_triangle sw sh (eye_l_x s) (eye_l_y s - 1)
              (eye_l_x s + eye_l_width_current s div 2) (eye_l_y s - 1)
              (eye_l_x s) (eye_l_y s + eyelids_tired_height s - 1) (bgcolor s)),
            on_buffer (\<lambda>sw sh. fill_triangle sw sh
              (eye_l_x s + eye_l_width_current s div 2) (eye_l_y s - 1)
              (eye_l_x s + eye_l_width_current s) (eye_l_y s - 1)
              (eye_l_x s + eye_l_width_current s) (eye_l_y s + eyelids_tired_height s - 1)
              (bgcolor s))] s)"

definition angry_eyelids :: "roboeyes \<Rightarrow> roboeyes result" where
  "angry_eyelids s0 =
    (let s = s0\<lparr>eyelids_angry_height :=
                 (eyelids_angry_height s0 + eyelids_angry_height_next s0) div 2\<rparr>
     in if \<not> p_cyclops s then
          in_order
           [on_buffer (\<lambda>sw sh. fill_triangle sw sh (eye_l_x s) (eye_l_y s - 1)
              (eye_l_x s + eye_l_width_current s) (eye_l_y s - 1)
              (eye_l_x s + eye_l_width_current s) (eye_l_y s + eyelids_angry_height s - 1)
              (bgcolor s)),
            on_buffer (\<lambda>sw sh. fill_triangle sw sh (eye_r_x s) (eye_r_y s - 1)
              (eye_r_x s + eye_r_width_current s) (eye_r_y s - 1)
              (eye_r_x s) (eye_r_y s + eyelids_angry_height s - 1) (bgcolor s))] s
        else
          in_order
           [on_buffer (\<lambda>sw sh. fill_triangle sw sh (eye_l_x s) (eye_l_y s - 1)
              (eye_l_x s + eye_l_width_current s div 2) (eye_l_y s - 1)
              (eye_l_x s + eye_l_width_current s div 2) (eye_l_y s + eyelids_angry_height s - 1)
              (bgcolor s)),
            on_buffer (\<lambda>sw sh. fill_triangle sw sh
              (eye_l_x s + eye_l_width_current s div 2) (eye_l_y s - 1)
              (eye_l_x s + eye_l_width_current s) (eye_l_y s - 1)
              (eye_l_x s + eye_l_width_current s div 2) (eye_l_y s + eyelids_angry_height s - 1)
              (bgcolor s))] s)"

definition happy_eyelids :: "roboeyes \<Rightarrow> roboeyes result" where
  "happy_eyelids s0 =
    (let s = s0\<lparr>eyelids_happy_bottom_offset :=
                 (eyelids_happy_bottom_offset s0 + eyelids_happy_bottom_offset_next s0) div 2\<rparr>
     in in_order
         [on_buffer (\<lambda>sw sh. draw_rounded_rect sw sh (eye_l_x s - 1)
            (eye_l_y s + eye_l_height_current s - eyelids_happy_bottom_offset s + 1)
            (eye_l_width_current s + 2) (eye_l_height_default s)
            (eye_l_border_radius_current s) (bgcolor s)),
          (\<lambda>s'. if \<not> p_cyclops s' then
             on_buffer (\<lambda>sw sh. draw_rounded_rect sw sh (eye_r_x s - 1)
               (eye_r_y s + eye_r_height_current s - eyelids_happy_bottom_offset s + 1)
               (eye_r_width_current s + 2) (eye_r_height_default s)
               (eye_r_border_radius_current s) (bgcolor s)) s'
           else Inr s')] s)"

text \<open>
  \<open>draw_eyes\<close> ends by handing the image to the display when there is one; that call
  belongs to the display driver and changes nothing here.
\<close>

definition draw_eyes :: "env \<Rightarrow> roboeyes \<Rightarrow> roboeyes result" where
  "draw_eyes ev =
    in_order
     [returns clear_buffer,
      returns curious_mode,
      returns interpolate_heights,
      returns open_if_needed,
      returns interpolate_widths,
      returns interpolate_spacing,
      returns interpolate_positions,
      returns interpolate_radius,
      auto_blink ev,
      returns (laughing ev),
      returns (confused ev),
      idle_mode ev,
      returns horizontal_flicker,
      returns vertical_flicker,
      draw_left_eye,
      draw_right_eye,
      returns mood_transitions,
      tired_eyelids,
      angry_eyelids,
      happy_eyelids]"

section \<open>Sequences\<close>

text \<open>
  A step's callback is called with the engine. It is any function on the engine's
  attributes that returns or raises; the list of sequences itself is out of its reach
  here. The attribute \<open>done\<close> of a step is \<open>step_done\<close>, the property \<open>done\<close> of a
  sequence is \<open>sequence_done\<close>. The back references \<open>owner_seq\<close> and \<open>owner\<close> are the
  arguments that hold the sequence's start time and the engine.
\<close>

record step_data =
  step_done :: bool
  ms_timing :: int
  callback :: "roboeyes \<Rightarrow> roboeyes result"

record sequence =
  steps :: "step_data list"
  name :: string
  p_start :: "int option"

record engine =
  eyes :: roboeyes
  sequences :: "sequence list"

text \<open>
  \<open>StepData.update\<close>, called by \<open>Sequence.update\<close> on a started sequence whose start time
  is \<open>start\<close>. When the callback raises, the step is not marked.
\<close>

definition step_update ::
  "int \<Rightarrow> int \<Rightarrow> step_data \<Rightarrow> roboeyes \<Rightarrow> (step_data \<times> roboeyes) result" where
  "step_update ticks start st owner =
    (if step_done st then Inr (st, owner)
     else if ticks - start < ms_timing st then Inr (st, owner)
     else (case callback st owner of
             Inl (e, owner') \<Rightarrow> Inl (e, (st, owner'))
           | Inr owner' \<Rightarrow> Inr (st\<lparr>step_done := True\<rparr>, owner')))"

definition sequence_step :: "int \<Rightarrow> (roboeyes \<Rightarrow> roboeyes result) \<Rightarrow> sequence \<Rightarrow> sequence" where
  "sequence_step ms cb sq =
    sq\<lparr>steps := steps sq @ [\<lparr>step_done = False, ms_timing = ms, callback = cb\<rparr>]\<rparr>"

text \<open>\<open>Sequence.start\<close>; \<open>t\<close> is the clock reading.\<close>

definition sequence_start :: "int \<Rightarrow> sequence \<Rightarrow> sequence" where
  "sequence_start t sq = sq\<lparr>p_start := Some t\<rparr>"

definition sequence_reset :: "sequence \<Rightarrow> sequence" where
  "sequence_reset sq =
    sq\<lparr>p_start := None, steps := map (\<lambda>st. st\<lparr>step_done := False\<rparr>) (steps sq)\<rparr>"

definition sequence_done :: "sequence \<Rightarrow> bool" where
  "sequence_done sq = (if p_start sq = None then True else list_all step_done (steps sq))"

text \<open>The loop of \<open>Sequence.update\<close> over the steps.\<close>

fun update_steps ::
  "int \<Rightarrow> int \<Rightarrow> step_data list \<Rightarrow> roboeyes \<Rightarrow> (step_data list \<times> roboeyes) result" where
  "update_steps ticks start [] owner = Inr ([], owner)"
| "update_steps ticks start (st # sts) owner =
    (case (if \<not> step_done st then step_update ticks start st owner else Inr (st, owner)) of
       Inl (e, (st', owner')) \<Rightarrow> Inl (e, (st' # sts, owner'))
     | Inr (st', owner') \<Rightarrow>
         (case update_steps ticks start sts owner' of
            Inl (e, (sts', owner'')) \<Rightarrow> Inl (e, (st' # sts', owner''))
          | Inr (sts', owner'') \<Rightarrow> Inr (st' # sts', owner'')))"

definition sequence_update ::
  "int \<Rightarrow> sequence \<Rightarrow> roboeyes \<Rightarrow> (sequence \<times> roboeyes) result" where
  "sequence_update ticks sq owner =
    (case p_start sq of
       None \<Rightarrow> Inr (sq, owner)
     | Some start \<Rightarrow>
         (case update_steps ticks start (steps sq) owner of
            Inl (e, (sts, owner')) \<Rightarrow> Inl (e, (sq\<lparr>steps := sts\<rparr>, owner'))
          | Inr (sts, owner') \<Rightarrow> Inr (sq\<lparr>steps := sts\<rparr>, owner')))"

text \<open>The class \<open>Sequences\<close>: \<open>add\<close>, \<open>done\<close> and \<open>update\<close> (\<open>sequences_update_all\<close>, with its clock
  reading \<open>ticks\<close>).\<close>

definition sequences_add :: "string \<Rightarrow> engine \<Rightarrow> engine" where
  "sequences_add nm e =
    e\<lparr>sequences := sequences e @ [\<lparr>steps = [], name = nm, p_start = None\<rparr>]\<rparr>"

definition sequences_done :: "engine \<Rightarrow> bool" where
  "sequences_done e = list_all sequence_done (sequences e)"

fun update_sequences ::
  "int \<Rightarrow> sequence list \<Rightarrow> roboeyes \<Rightarrow> (sequence list \<times> roboeyes) result" where
  "update_sequences ticks [] owner = Inr ([], owner)"
| "update_sequences ticks (sq # sqs) owner =
    (case sequence_update ticks sq owner of
       Inl (e, (sq', owner')) \<Rightarrow> Inl (e, (sq' # sqs, owner'))
     | Inr (sq', owner') \<Rightarrow>
         (case update_sequences ticks sqs owner' of
            Inl (e, (sqs', owner'')) \<Rightarrow> Inl (e, (sq' # sqs', owner''))
          | Inr (sqs', owner'') \<Rightarrow> Inr (sq' # sqs', owner'')))"

definition sequences_update_all :: "int \<Rightarrow> engine \<Rightarrow> engine result" where
  "sequences_update_all ticks e =
    (case update_sequences ticks (sequences e) (eyes e) of
       Inl (er, (sqs, owner)) \<Rightarrow> Inl (er, \<lparr>eyes = owner, sequences = sqs\<rparr>)
     | Inr (sqs, owner) \<Rightarrow> Inr \<lparr>eyes = owner, sequences = sqs\<rparr>)"

section \<open>The main update\<close>

text \<open>
  \<open>update\<close> reads the clock in \<open>sequences.update()\<close>, then for the frame rate limit, and
  \<open>draw_eyes\<close> reads it again.
\<close>

record clock =
  seq_ticks :: int
  update_now :: int
  draw_env :: env

definition update :: "clock \<Rightarrow> engine \<Rightarrow> engine result" where
  "update clk e =
    (case sequences_update_all (seq_ticks clk) e of
       Inl x \<Rightarrow> Inl x
     | Inr e1 \<Rightarrow>
         (if update_now clk - fps_timer (eyes e1) \<ge> frame_interval (eyes e1) then
            (case draw_eyes (draw_env clk) (eyes e1) of
               Inl (er, s) \<Rightarrow> Inl (er, e1\<lparr>eyes := s\<rparr>)
             | Inr s \<Rightarrow> Inr (e1\<lparr>eyes := s\<lparr>fps_timer := update_now clk\<rparr>\<rparr>))
          else Inr e1))"

section \<open>Public operations\<close>

text \<open>
  The methods and property setters a driver can call on the engine and on its
  sequences; a sequence is addressed by its place in the list.
\<close>

datatype op =
    Update clock
  | Draw_eyes env
  | Set_framerate int
  | Eyes_width "int option" "int option"
  | Eyes_height "int option" "int option"
  | Eyes_radius "int option" "int option"
  | Eyes_spacing int
  | Set_mood int
  | Set_curious bool
  | Set_cyclops bool
  | Horiz_flicker bool "int option"
  | Vert_flicker bool "int option"
  | Set_auto_blinker bool "int option" "int option"
  | Set_idle_mode bool "int option" "int option"
  | Set_position "int option"
  | Close "bool option" "bool option"
  | Open "bool option" "bool option"
  | Blink "bool option" "bool option"
  | Confuse
  | Laugh
  | Wink "bool option" "bool option"
  | Draw_rounded_rect int int int int int color
  | Fill_triangle int int int int int int color
  | Sequences_add string
  | Sequence_step nat int "roboeyes \<Rightarrow> roboeyes result"
  | Sequence_start nat int
  | Sequence_reset nat

definition on_eyes :: "(roboeyes \<Rightarrow> roboeyes result) \<Rightarrow> engine \<Rightarrow> engine result" where
  "on_eyes f e =
    (case f (eyes e) of
       Inl (er, s) \<Rightarrow> Inl (er, e\<lparr>eyes := s\<rparr>)
     | Inr s \<Rightarrow> Inr (e\<lparr>eyes := s\<rparr>))"

definition on_sequence :: "nat \<Rightarrow> (sequence \<Rightarrow> sequence) \<Rightarrow> engine \<Rightarrow> engine" where
  "on_sequence i f e =
    (if i < length (sequences e) then e\<lparr>sequences := (sequences e)[i := f (sequences e ! i)]\<rparr>
     else e)"

fun apply_op :: "op \<Rightarrow> engine \<Rightarrow> engine result" where
  "apply_op (Update clk) e = update clk e"
| "apply_op (Draw_eyes ev) e = on_eyes (draw_eyes ev) e"
| "apply_op (Set_framerate fps) e = on_eyes (set_framerate fps) e"
| "apply_op (Eyes_width l r) e = on_eyes (returns (eyes_width l r)) e"
| "apply_op (Eyes_height l r) e = on_eyes (returns (eyes_height l r)) e"
| "apply_op (Eyes_radius l r) e = on_eyes (returns (eyes_radius l r)) e"
| "apply_op (Eyes_spacing v) e = on_eyes (returns (eyes_spacing v)) e"
| "apply_op (Set_mood v) e = on_eyes (returns (set_mood v)) e"
| "apply_op (Set_curious v) e = on_eyes (returns (set_curious v)) e"
| "apply_op (Set_cyclops v) e = on_eyes (returns (set_cyclops v)) e"
| "apply_op (Horiz_flicker b a) e = on_eyes (returns (horiz_flicker b a)) e"
| "apply_op (Vert_flicker b a) e = on_eyes (returns (vert_flicker b a)) e"
| "apply_op (Set_auto_blinker b i v) e = on_eyes (returns (set_auto_blinker b i v)) e"
| "apply_op (Set_idle_mode b i v) e = on_eyes (returns (set_idle_mode b i v)) e"
| "apply_op (Set_position d) e = on_eyes (returns (set_position d)) e"
| "apply_op (Close l r) e = on_eyes (returns (close l r)) e"
| "apply_op (Open l r) e = on_eyes (returns (open_eyes l r)) e"
| "apply_op (Blink l r) e = on_eyes (returns (blink l r)) e"
| "apply_op Confuse e = on_eyes (returns confuse) e"
| "apply_op Laugh e = on_eyes (returns laugh) e"
| "apply_op (Wink l r) e = on_eyes (wink l r) e"
| "apply_op (Draw_rounded_rect x y w h r c) e =
     on_eyes (on_buffer (\<lambda>sw sh. draw_rounded_rect sw sh x y w h r c)) e"
| "apply_op (Fill_triangle x0 y0 x1 y1 x2 y2 c) e =
     on_eyes (on_buffer (\<lambda>sw sh. fill_triangle sw sh x0 y0 x1 y1 x2 y2 c)) e"
| "apply_op (Sequences_add nm) e = Inr (sequences_add nm e)"
| "apply_op (Sequence_step i ms cb) e = Inr (on_sequence i (sequence_step ms cb) e)"
| "apply_op (Sequence_start i t) e = Inr (on_sequence i (sequence_start t) e)"
| "apply_op (Sequence_reset i) e = Inr (on_sequence i sequence_reset e)"

text \<open>
  A run of operations by a driver that goes on after a raise: the object keeps the
  state it had when the operation raised.
\<close>

fun run_ops :: "op list \<Rightarrow> engine \<Rightarrow> engine" where
  "run_ops [] e = e"
| "run_ops (x # xs) e = run_ops xs (state_of (apply_op x e))"

text \<open>Ticks alone, ending at the first raise.\<close>

definition run_ticks :: "env list \<Rightarrow> roboeyes \<Rightarrow> roboeyes result" where
  "run_ticks evs = in_order (map draw_eyes evs)"

section \<open>Notions used in the statements and proofs\<close>

text \<open>The engine a driver gets from \<^verbatim>\<open>FastRoboEyes(None, 240, 320)\<close>.\<close>

definition demo :: roboeyes where
  "demo = fresh False 240 320 60 (0, 0, 0) (173, 216, 230)"

definition target_l :: "roboeyes \<Rightarrow> int \<times> int" where
  "target_l s = (eye_l_x_next s, eye_l_y_next s)"

definition constraint_x :: "roboeyes \<Rightarrow> int" where
  "constraint_x s =
    screen_width s - eye_l_width_current s - space_between_current s - eye_r_width_current s"

definition constraint_y :: "roboeyes \<Rightarrow> int" where
  "constraint_y s = screen_height s - eye_l_height_default s"



text \<open>
  The first eight parts of \<open>draw_eyes\<close>: they cannot raise, and they alone write the
  current sizes, the offsets and the right eye's target.
\<close>

definition geometry :: "roboeyes \<Rightarrow> roboeyes" where
  "geometry s =
    interpolate_radius (interpolate_positions (interpolate_spacing (interpolate_widths
      (open_if_needed (interpolate_heights (curious_mode (clear_buffer s)))))))"

text \<open>
  The twelve parts that follow them.
\<close>

definition tail_steps :: "env \<Rightarrow> (roboeyes \<Rightarrow> roboeyes result) list" where
  "tail_steps ev =
    [auto_blink ev, returns (laughing ev), returns (confused ev), idle_mode ev,
     returns horizontal_flicker, returns vertical_flicker, draw_left_eye, draw_right_eye,
     returns mood_transitions, tired_eyelids, angry_eyelids, happy_eyelids]"

text \<open>
  The attributes that the laugh, confuse, flicker, mood and drawing parts of \<open>draw_eyes\<close>
  never write: all but the buffer, the drawn positions, the eyelids, the flicker and
  the laugh and confuse state.
\<close>

definition core where
  "core (s::roboeyes) =
   (display s, screen_width s, screen_height s, bgcolor s, fgcolor s, fps_timer s,
     frame_interval s, p_position s, p_mood s, tired s, angry s, happy s, p_curious s,
     p_cyclops s, eye_l_open s, eye_r_open s, space_between_default s, eye_l_width_default s,
     eye_l_height_default s, eye_r_width_default s, eye_r_height_default s,
     eye_l_border_radius_default s, eye_r_border_radius_default s, eye_l_width_current s,
     eye_l_height_current s, eye_r_width_current s, eye_r_height_current s,
     eye_l_border_radius_current s, eye_r_border_radius_current s, space_between_current s,
     eye_l_width_next s, eye_l_height_next s, eye_r_width_next s, eye_r_height_next s,
     eye_l_border_radius_next s, eye_r_border_radius_next s, space_between_next s,
     eye_l_height_offset s, eye_r_height_offset s, eye_l_x_default s, eye_l_y_default s,
     eye_l_x_next s, eye_l_y_next s, eye_r_x_default s, eye_r_y_default s, eye_r_x_next s,
     eye_r_y_next s, eyelids_height_max s, autoblinker s, blink_interval s,
     blink_interval_variation s, blink_timer s, idle s, idle_interval s,
     idle_interval_variation s, idle_animation_timer s, confused_animation_duration s,
     laugh_animation_duration s)"

text \<open>
  The last eight of them: flicker and drawing.
\<close>

definition paint_steps :: "(roboeyes \<Rightarrow> roboeyes result) list" where
  "paint_steps =
    [returns horizontal_flicker, returns vertical_flicker, draw_left_eye, draw_right_eye,
     returns mood_transitions, tired_eyelids, angry_eyelids, happy_eyelids]"

text \<open>
  At most one of the three mood flags is set.
\<close>

definition at_most_one_mood :: "roboeyes \<Rightarrow> bool" where
  "at_most_one_mood s =
    (\<not> (tired s \<and> angry s) \<and> \<not> (tired s \<and> happy s) \<and> \<not> (angry s \<and> happy s))"

text \<open>
  The attributes that only the first eight parts of \<open>draw_eyes\<close> can write.
\<close>

definition stable where
  "stable (s::roboeyes) =
    (eye_l_height_current s, eye_r_height_current s, eye_l_height_default s,
     eye_r_height_default s, eye_l_height_offset s, eye_r_height_offset s,
     eye_l_width_current s, eye_r_width_current s, eye_l_width_next s, eye_r_width_next s,
     space_between_current s, space_between_next s, eye_l_border_radius_current s,
     eye_r_border_radius_current s, eye_l_border_radius_next s, eye_r_border_radius_next s,
     eye_r_x_next s, eye_r_y_next s, p_curious s, p_cyclops s, autoblinker s, idle s,
     idle_interval s, idle_interval_variation s, blink_interval s,
     blink_interval_variation s, screen_width s, screen_height s, tired s, angry s, happy s)"

text \<open>
  A clock reading of one second and a random generator that always chooses 0.
\<close>

definition ev0 :: env where
  "ev0 = \<lparr>now = 1000, rand_blink = 0, rand_idle_x = 0, rand_idle_y = 0, rand_idle = 0\<rparr>"

text \<open>
  Heights and widths, current and target, and the default heights are not negative.
\<close>

definition sizes_nonneg :: "roboeyes \<Rightarrow> bool" where
  "sizes_nonneg s =
    (0 \<le> eye_l_height_current s \<and> 0 \<le> eye_l_height_next s \<and> 0 \<le> eye_l_height_default s
     \<and> 0 \<le> eye_r_height_current s \<and> 0 \<le> eye_r_height_next s \<and> 0 \<le> eye_r_height_default s
     \<and> 0 \<le> eye_l_width_current s \<and> 0 \<le> eye_l_width_next s
     \<and> 0 \<le> eye_r_width_current s \<and> 0 \<le> eye_r_width_next s)"

text \<open>
  A callback keeps the mood flags exclusive; so do the callbacks an operation
  registers, the steps of a sequence, and an engine with its sequences.
\<close>

definition keeps_mood_flags :: "(roboeyes \<Rightarrow> roboeyes result) \<Rightarrow> bool" where
  "keeps_mood_flags cb = (\<forall>s. at_most_one_mood s \<longrightarrow> at_most_one_mood (state_of (cb s)))"

fun callbacks_keep_mood_flags :: "op \<Rightarrow> bool" where
  "callbacks_keep_mood_flags (Sequence_step i ms cb) = keeps_mood_flags cb"
| "callbacks_keep_mood_flags x = True"

definition steps_ok :: "step_data list \<Rightarrow> bool" where
  "steps_ok sts = (\<forall>st\<in>set sts. keeps_mood_flags (callback st))"

definition sequences_ok :: "sequence list \<Rightarrow> bool" where
  "sequences_ok sqs = (\<forall>sq\<in>set sqs. steps_ok (steps sq))"

definition engine_ok :: "engine \<Rightarrow> bool" where
  "engine_ok e = (at_most_one_mood (eyes e) \<and> sequences_ok (sequences e))"

text \<open>
  A drawing helper returns, and what it adds to the buffer are clipped assignments.
\<close>

definition appends_clipped :: "int \<Rightarrow> int \<Rightarrow> (buffer \<Rightarrow> buffer result) \<Rightarrow> bool" where
  "appends_clipped sw sh f =
    (\<forall>buf. \<exists>ws. f buf = Inr (buf @ ws) \<and> (\<forall>a\<in>set ws. clipped sw sh a))"





section \<open>Theorems\<close>

subsection \<open>The position setter\<close>

text \<open>
  Claim C4. The position setter writes the left eye's target \<open>(x_next, y_next)\<close>: with
  \<open>constraint_x = screen_width - eye_l_width_current - space_between_current -
  eye_r_width_current\<close> and \<open>constraint_y = screen_height - eye_l_height_default\<close>, N gives
  \<open>(constraint_x div 2, 0)\<close>, S \<open>(constraint_x div 2, constraint_y)\<close>, E
  \<open>(constraint_x, constraint_y div 2)\<close>, W \<open>(0, constraint_y div 2)\<close>, NE
  \<open>(constraint_x, 0)\<close>, SE \<open>(constraint_x, constraint_y)\<close>, SW \<open>(0, constraint_y)\<close>, NW
  \<open>(0, 0)\<close>, and any other value, \<open>None\<close> included, the centre
  \<open>(constraint_x div 2, constraint_y div 2)\<close>. The halves are floor divisions.
\<close>

theorem set_position_targets:
  "target_l (set_position (Some N) s) = (constraint_x s div 2, 0)
   \<and> target_l (set_position (Some S) s) = (constraint_x s div 2, constraint_y s)
   \<and> target_l (set_position (Some E) s) = (constraint_x s, constraint_y s div 2)
   \<and> target_l (set_position (Some W) s) = (0, constraint_y s div 2)
   \<and> target_l (set_position (Some NE) s) = (constraint_x s, 0)
   \<and> target_l (set_position (Some SE) s) = (constraint_x s, constraint_y s)
   \<and> target_l (set_position (Some SW) s) = (0, constraint_y s)
   \<and> target_l (set_position (Some NW) s) = (0, 0)
   \<and> (d \<notin> Some ` {N, NE, E, SE, S, SW, W, NW} \<longrightarrow>
        target_l (set_position d s) = (constraint_x s div 2, constraint_y s div 2))"
  by (auto simp add: set_position_def target_l_def constraint_x_def constraint_y_def
        get_screen_constraint_x_def get_screen_constraint_y_def dir_defs Let_def)

theorem set_position_targets_witness:
  "None \<notin> Some ` {N, NE, E, SE, S, SW, W, NW}
   \<and> target_l (set_position None demo) = (79, 142)
   \<and> target_l (set_position (Some SE) demo) = (158, 284)"
  using set_position_targets [of demo None]
  by (simp add: constraint_x_def constraint_y_def demo_def fresh_def int_half_def Let_def)

subsection \<open>Wink\<close>

theorem wink_counterexample:
  "wink (Some False) None demo = Inl (ValueError, demo)
   \<and> eye_r_height_next demo = 36
   \<and> eye_r_height_next (state_of (wink (Some True) (Some False) demo)) = 1"
  by (simp add: wink_def truthy_def blink_def close_def open_eyes_def state_of_def
        demo_def fresh_def Let_def)

text \<open>
  Claim C5, amended. \<open>wink\<close> raises \<open>ValueError\<close> and leaves the state as it was when
  neither argument is a true value (omitted, or given as \<open>OFF\<close>). When each side is
  either omitted or given as a true value, and one of them is given, \<open>wink\<close> does not
  raise and its effect is exactly: \<open>autoblinker\<close> off, \<open>idle\<close> off, then \<open>blink\<close> with
  the same arguments, which sets the target height to 1 and the open flag on the given
  side or sides only.
\<close>

theorem wink_effect:
  "(\<not> truthy l \<and> \<not> truthy r \<longrightarrow> wink l r s = Inl (ValueError, s))
   \<and> (l \<in> {None, Some True} \<and> r \<in> {None, Some True} \<and> (l, r) \<noteq> (None, None) \<longrightarrow>
        wink l r s = Inr (blink l r (s\<lparr>autoblinker := False, idle := False\<rparr>)))
   \<and> blink (Some True) None s = s\<lparr>eye_l_height_next := 1, eye_l_open := True\<rparr>
   \<and> blink None (Some True) s = s\<lparr>eye_r_height_next := 1, eye_r_open := True\<rparr>
   \<and> blink (Some True) (Some True) s =
        s\<lparr>eye_l_height_next := 1, eye_r_height_next := 1, eye_l_open := True, eye_r_open := True\<rparr>"
  by (auto simp add: wink_def truthy_def blink_def close_def open_eyes_def)

theorem wink_effect_witness:
  "\<not> truthy None \<and> wink None None demo = Inl (ValueError, demo)
   \<and> Some True \<in> {None, Some True} \<and> None \<in> {None, Some True}
   \<and> (Some True, None) \<noteq> (None, None)
   \<and> wink (Some True) None demo =
       Inr (demo\<lparr>autoblinker := False, idle := False, eye_l_height_next := 1, eye_l_open := True\<rparr>)"
  using wink_effect [of None None demo] wink_effect [of "Some True" None demo]
  by (simp add: truthy_def blink_def close_def open_eyes_def)

subsection \<open>Sequences\<close>





subsection \<open>The frame rate limit\<close>

text \<open>
  Claim C9. When \<open>update\<close> is called and, after the sequences have been advanced, the
  time since the last redraw is less than the frame interval, \<open>draw_eyes\<close> is not
  called: the call returns the engine as the advance of the sequences left it, with
  every attribute and the buffer as they were then.
\<close>

theorem update_throttled:
  assumes "sequences_update_all (seq_ticks clk) e = Inr e1"
    and "update_now clk - fps_timer (eyes e1) < frame_interval (eyes e1)"
  shows "update clk e = Inr e1"
  using assms by (simp add: update_def)

theorem update_throttled_witness:
  "update \<lparr>seq_ticks = 5, update_now = 5,
           draw_env = \<lparr>now = 5, rand_blink = 0, rand_idle_x = 0, rand_idle_y = 0, rand_idle = 0\<rparr>\<rparr>
     \<lparr>eyes = demo, sequences = []\<rparr>
   = Inr \<lparr>eyes = demo, sequences = []\<rparr>"
  using update_throttled
    [of "\<lparr>seq_ticks = 5, update_now = 5,
          draw_env = \<lparr>now = 5, rand_blink = 0, rand_idle_x = 0, rand_idle_y = 0, rand_idle = 0\<rparr>\<rparr>"
        "\<lparr>eyes = demo, sequences = []\<rparr>" "\<lparr>eyes = demo, sequences = []\<rparr>"]
  by (simp add: sequences_update_all_def demo_def fresh_def Let_def)

subsection \<open>The parts of a tick\<close>

lemma state_of_simps [simp]:
  "state_of (Inr s) = s" "state_of (Inl (e, s)) = s" "state_of (returns f s) = f s"
  by (simp_all add: state_of_def returns_def)

lemma in_order_state_of:
  assumes "\<And>f s. f \<in> set fs \<Longrightarrow> P s \<Longrightarrow> P (state_of (f s))" and "P s"
  shows "P (state_of (in_order fs s))"
  using assms
proof (induction fs arbitrary: s)
  case Nil
  then show ?case by simp
next
  case (Cons f fs)
  have step: "P (state_of (f s))" using Cons.prems by simp
  show ?case
  proof (cases "f s")
    case (Inl x)
    with step show ?thesis by (cases x) simp
  next
    case (Inr s')
    with step have "P s'" by simp
    with Cons.IH [of s'] Cons.prems(1) Inr show ?thesis by simp
  qed
qed

lemma draw_eyes_unfold: "draw_eyes ev s = in_order (tail_steps ev) (geometry s)"
  by (simp add: draw_eyes_def tail_steps_def geometry_def returns_def)

lemma core_on_buffer: "core (state_of (on_buffer f s)) = core s"
  by (auto simp add: on_buffer_def core_def split: sum.splits prod.splits)

lemma core_in_order_on_buffer:
  assumes "\<And>f s. f \<in> set fs \<Longrightarrow> core (state_of (f s)) = core s"
  shows "core (state_of (in_order fs s)) = core s"
  by (rule in_order_state_of [where P = "\<lambda>x. core x = core s"]) (simp_all add: assms)

lemma core_two_draws:
  "core (state_of (in_order [on_buffer f, on_buffer g] s)) = core s"
  by (rule core_in_order_on_buffer) (auto simp add: core_on_buffer)

lemma core_two_draws_cyclops:
  "core (state_of (in_order
     [on_buffer f, \<lambda>s'. if \<not> p_cyclops s' then on_buffer g s' else Inr s'] s)) = core s"
  by (rule core_in_order_on_buffer) (auto simp add: core_on_buffer)

lemma core_draw_left_eye: "core (state_of (draw_left_eye s)) = core s"
  by (simp add: draw_left_eye_def core_on_buffer)

lemma core_draw_right_eye: "core (state_of (draw_right_eye s)) = core s"
  by (simp add: draw_right_eye_def core_on_buffer)

lemma core_tired_eyelids: "core (state_of (tired_eyelids s)) = core s"
proof -
  have "core (s\<lparr>eyelids_tired_height := v\<rparr>) = core s" for v
    by (simp add: core_def)
  then show ?thesis
    unfolding tired_eyelids_def Let_def
    by (simp only: core_two_draws split: if_split) simp
qed

lemma core_angry_eyelids: "core (state_of (angry_eyelids s)) = core s"
proof -
  have "core (s\<lparr>eyelids_angry_height := v\<rparr>) = core s" for v
    by (simp add: core_def)
  then show ?thesis
    unfolding angry_eyelids_def Let_def
    by (simp only: core_two_draws split: if_split) simp
qed

lemma core_happy_eyelids: "core (state_of (happy_eyelids s)) = core s"
proof -
  have "core (s\<lparr>eyelids_happy_bottom_offset := v\<rparr>) = core s" for v
    by (simp add: core_def)
  then show ?thesis
    unfolding happy_eyelids_def Let_def
    by (simp only: core_two_draws_cyclops)
qed

lemma core_pure_steps:
  "core (laughing ev s) = core s"
  "core (confused ev s) = core s"
  "core (horizontal_flicker s) = core s"
  "core (vertical_flicker s) = core s"
  "core (mood_transitions s) = core s"
  by (simp_all add: core_def laughing_def confused_def horizontal_flicker_def
        vertical_flicker_def mood_transitions_def vert_flicker_def horiz_flicker_def Let_def)

lemma tail_preserves:
  assumes frame: "\<And>s s'. core s' = core s \<Longrightarrow> P s \<Longrightarrow> P s'"
    and ab: "\<And>s. P s \<Longrightarrow> P (state_of (auto_blink ev s))"
    and im: "\<And>s. P s \<Longrightarrow> P (state_of (idle_mode ev s))"
    and "P s"
  shows "P (state_of (in_order (tail_steps ev) s))"
proof (rule in_order_state_of [where P = P])
  fix f s
  assume f: "f \<in> set (tail_steps ev)" and p: "P s"
  from f consider "f = auto_blink ev" | "f = idle_mode ev" | "core (state_of (f s)) = core s"
    by (auto simp add: tail_steps_def core_pure_steps core_draw_left_eye core_draw_right_eye
          core_tired_eyelids core_angry_eyelids core_happy_eyelids)
  then show "P (state_of (f s))"
  proof cases
    case 1
    with ab p show ?thesis by simp
  next
    case 2
    with im p show ?thesis by simp
  next
    case 3
    with frame p show ?thesis by blast
  qed
qed (fact assms(4))

lemma draw_eyes_preserves:
  assumes frame: "\<And>s s'. core s' = core s \<Longrightarrow> P s \<Longrightarrow> P s'"
    and ab: "\<And>s. P s \<Longrightarrow> P (state_of (auto_blink ev s))"
    and im: "\<And>s. P s \<Longrightarrow> P (state_of (idle_mode ev s))"
    and "P (geometry s)"
  shows "P (state_of (draw_eyes ev s))"
  unfolding draw_eyes_unfold using assms by (rule tail_preserves)

lemma in_order_append:
  "in_order (fs @ gs) s = (case in_order fs s of Inl x \<Rightarrow> Inl x | Inr s' \<Rightarrow> in_order gs s')"
  by (induction fs arbitrary: s) (auto split: sum.splits)

lemma tail_steps_split:
  "tail_steps ev =
    [auto_blink ev, returns (laughing ev), returns (confused ev), idle_mode ev] @ paint_steps"
  by (simp add: tail_steps_def paint_steps_def)

lemma draw_eyes_macros:
  "draw_eyes ev s =
    (case auto_blink ev (geometry s) of
       Inl x \<Rightarrow> Inl x
     | Inr s1 \<Rightarrow>
        (case idle_mode ev (confused ev (laughing ev s1)) of
           Inl x \<Rightarrow> Inl x
         | Inr s2 \<Rightarrow> in_order paint_steps s2))"
  unfolding draw_eyes_unfold tail_steps_split in_order_append
  by (simp add: returns_def split: sum.splits)

lemma core_paint: "core (state_of (in_order paint_steps s)) = core s"
  by (rule core_in_order_on_buffer)
    (auto simp add: paint_steps_def core_pure_steps core_draw_left_eye core_draw_right_eye
       core_tired_eyelids core_angry_eyelids core_happy_eyelids)

lemmas geometry_defs = clear_buffer_def curious_mode_def
          interpolate_heights_def open_if_needed_def interpolate_widths_def
          interpolate_spacing_def interpolate_positions_def interpolate_radius_def

lemma moods_geometry_steps:
  "at_most_one_mood (clear_buffer s) = at_most_one_mood s"
  "at_most_one_mood (curious_mode s) = at_most_one_mood s"
  "at_most_one_mood (interpolate_heights s) = at_most_one_mood s"
  "at_most_one_mood (open_if_needed s) = at_most_one_mood s"
  "at_most_one_mood (interpolate_widths s) = at_most_one_mood s"
  "at_most_one_mood (interpolate_spacing s) = at_most_one_mood s"
  "at_most_one_mood (interpolate_positions s) = at_most_one_mood s"
  "at_most_one_mood (interpolate_radius s) = at_most_one_mood s"
  by (simp_all add: at_most_one_mood_def geometry_defs Let_def)

lemma moods_geometry: "at_most_one_mood (geometry s) = at_most_one_mood s"
  by (simp add: geometry_def moods_geometry_steps)

subsection \<open>What each part of a tick does to each attribute\<close>

lemma clear_buffer_fields:
  "eye_l_height_current (clear_buffer s) = eye_l_height_current s"
  "eye_r_height_current (clear_buffer s) = eye_r_height_current s"
  "eye_l_height_next (clear_buffer s) = eye_l_height_next s"
  "eye_r_height_next (clear_buffer s) = eye_r_height_next s"
  "eye_l_height_default (clear_buffer s) = eye_l_height_default s"
  "eye_r_height_default (clear_buffer s) = eye_r_height_default s"
  "eye_l_open (clear_buffer s) = eye_l_open s"
  "eye_r_open (clear_buffer s) = eye_r_open s"
  "eye_l_height_offset (clear_buffer s) = eye_l_height_offset s"
  "eye_r_height_offset (clear_buffer s) = eye_r_height_offset s"
  "eye_l_width_current (clear_buffer s) = eye_l_width_current s"
  "eye_r_width_current (clear_buffer s) = eye_r_width_current s"
  "eye_l_width_next (clear_buffer s) = eye_l_width_next s"
  "eye_r_width_next (clear_buffer s) = eye_r_width_next s"
  "space_between_current (clear_buffer s) = space_between_current s"
  "space_between_next (clear_buffer s) = space_between_next s"
  "eye_l_border_radius_current (clear_buffer s) = eye_l_border_radius_current s"
  "eye_r_border_radius_current (clear_buffer s) = eye_r_border_radius_current s"
  "eye_l_border_radius_next (clear_buffer s) = eye_l_border_radius_next s"
  "eye_r_border_radius_next (clear_buffer s) = eye_r_border_radius_next s"
  "eye_l_x_next (clear_buffer s) = eye_l_x_next s"
  "eye_l_y_next (clear_buffer s) = eye_l_y_next s"
  "eye_r_x_next (clear_buffer s) = eye_r_x_next s"
  "eye_r_y_next (clear_buffer s) = eye_r_y_next s"
  "p_curious (clear_buffer s) = p_curious s"
  "p_cyclops (clear_buffer s) = p_cyclops s"
  "autoblinker (clear_buffer s) = autoblinker s"
  "idle (clear_buffer s) = idle s"
  "idle_animation_timer (clear_buffer s) = idle_animation_timer s"
  "idle_interval (clear_buffer s) = idle_interval s"
  "idle_interval_variation (clear_buffer s) = idle_interval_variation s"
  "blink_timer (clear_buffer s) = blink_timer s"
  "blink_interval (clear_buffer s) = blink_interval s"
  "blink_interval_variation (clear_buffer s) = blink_interval_variation s"
  "screen_width (clear_buffer s) = screen_width s"
  "screen_height (clear_buffer s) = screen_height s"
  "tired (clear_buffer s) = tired s"
  "angry (clear_buffer s) = angry s"
  "happy (clear_buffer s) = happy s"
  by (simp_all add: clear_buffer_def Let_def)

lemma curious_mode_fields:
  "eye_l_height_current (curious_mode s) = eye_l_height_current s"
  "eye_r_height_current (curious_mode s) = eye_r_height_current s"
  "eye_l_height_next (curious_mode s) = eye_l_height_next s"
  "eye_r_height_next (curious_mode s) = eye_r_height_next s"
  "eye_l_height_default (curious_mode s) = eye_l_height_default s"
  "eye_r_height_default (curious_mode s) = eye_r_height_default s"
  "eye_l_open (curious_mode s) = eye_l_open s"
  "eye_r_open (curious_mode s) = eye_r_open s"
  "eye_l_height_offset (curious_mode s) = (if p_curious s then (if eye_l_x_next s \<le> 10 then 8 else if eye_l_x_next s \<ge> get_screen_constraint_x s - 10 \<and> p_cyclops s then 8 else 0) else 0)"
  "eye_r_height_offset (curious_mode s) = (if p_curious s then (if eye_r_x_next s \<ge> screen_width s - eye_r_width_current s - 10 then 8 else 0) else 0)"
  "eye_l_width_current (curious_mode s) = eye_l_width_current s"
  "eye_r_width_current (curious_mode s) = eye_r_width_current s"
  "eye_l_width_next (curious_mode s) = eye_l_width_next s"
  "eye_r_width_next (curious_mode s) = eye_r_width_next s"
  "space_between_current (curious_mode s) = space_between_current s"
  "space_between_next (curious_mode s) = space_between_next s"
  "eye_l_border_radius_current (curious_mode s) = eye_l_border_radius_current s"
  "eye_r_border_radius_current (curious_mode s) = eye_r_border_radius_current s"
  "eye_l_border_radius_next (curious_mode s) = eye_l_border_radius_next s"
  "eye_r_border_radius_next (curious_mode s) = eye_r_border_radius_next s"
  "eye_l_x_next (curious_mode s) = eye_l_x_next s"
  "eye_l_y_next (curious_mode s) = eye_l_y_next s"
  "eye_r_x_next (curious_mode s) = eye_r_x_next s"
  "eye_r_y_next (curious_mode s) = eye_r_y_next s"
  "p_curious (curious_mode s) = p_curious s"
  "p_cyclops (curious_mode s) = p_cyclops s"
  "autoblinker (curious_mode s) = autoblinker s"
  "idle (curious_mode s) = idle s"
  "idle_animation_timer (curious_mode s) = idle_animation_timer s"
  "idle_interval (curious_mode s) = idle_interval s"
  "idle_interval_variation (curious_mode s) = idle_interval_variation s"
  "blink_timer (curious_mode s) = blink_timer s"
  "blink_interval (curious_mode s) = blink_interval s"
  "blink_interval_variation (curious_mode s) = blink_interval_variation s"
  "screen_width (curious_mode s) = screen_width s"
  "screen_height (curious_mode s) = screen_height s"
  "tired (curious_mode s) = tired s"
  "angry (curious_mode s) = angry s"
  "happy (curious_mode s) = happy s"
  by (simp_all add: curious_mode_def Let_def)

lemma interpolate_heights_fields:
  "eye_l_height_current (interpolate_heights s) = (eye_l_height_current s + eye_l_height_next s + eye_l_height_offset s) div 2"
  "eye_r_height_current (interpolate_heights s) = (eye_r_height_current s + eye_r_height_next s + eye_r_height_offset s) div 2"
  "eye_l_height_next (interpolate_heights s) = eye_l_height_next s"
  "eye_r_height_next (interpolate_heights s) = eye_r_height_next s"
  "eye_l_height_default (interpolate_heights s) = eye_l_height_default s"
  "eye_r_height_default (interpolate_heights s) = eye_r_height_default s"
  "eye_l_open (interpolate_heights s) = eye_l_open s"
  "eye_r_open (interpolate_heights s) = eye_r_open s"
  "eye_l_height_offset (interpolate_heights s) = eye_l_height_offset s"
  "eye_r_height_offset (interpolate_heights s) = eye_r_height_offset s"
  "eye_l_width_current (interpolate_heights s) = eye_l_width_current s"
  "eye_r_width_current (interpolate_heights s) = eye_r_width_current s"
  "eye_l_width_next (interpolate_heights s) = eye_l_width_next s"
  "eye_r_width_next (interpolate_heights s) = eye_r_width_next s"
  "space_between_current (interpolate_heights s) = space_between_current s"
  "space_between_next (interpolate_heights s) = space_between_next s"
  "eye_l_border_radius_current (interpolate_heights s) = eye_l_border_radius_current s"
  "eye_r_border_radius_current (interpolate_heights s) = eye_r_border_radius_current s"
  "eye_l_border_radius_next (interpolate_heights s) = eye_l_border_radius_next s"
  "eye_r_border_radius_next (interpolate_heights s) = eye_r_border_radius_next s"
  "eye_l_x_next (interpolate_heights s) = eye_l_x_next s"
  "eye_l_y_next (interpolate_heights s) = eye_l_y_next s"
  "eye_r_x_next (interpolate_heights s) = eye_r_x_next s"
  "eye_r_y_next (interpolate_heights s) = eye_r_y_next s"
  "p_curious (interpolate_heights s) = p_curious s"
  "p_cyclops (interpolate_heights s) = p_cyclops s"
  "autoblinker (interpolate_heights s) = autoblinker s"
  "idle (interpolate_heights s) = idle s"
  "idle_animation_timer (interpolate_heights s) = idle_animation_timer s"
  "idle_interval (interpolate_heights s) = idle_interval s"
  "idle_interval_variation (interpolate_heights s) = idle_interval_variation s"
  "blink_timer (interpolate_heights s) = blink_timer s"
  "blink_interval (interpolate_heights s) = blink_interval s"
  "blink_interval_variation (interpolate_heights s) = blink_interval_variation s"
  "screen_width (interpolate_heights s) = screen_width s"
  "screen_height (interpolate_heights s) = screen_height s"
  "tired (interpolate_heights s) = tired s"
  "angry (interpolate_heights s) = angry s"
  "happy (interpolate_heights s) = happy s"
  by (simp_all add: interpolate_heights_def Let_def)

lemma open_if_needed_fields:
  "eye_l_height_current (open_if_needed s) = eye_l_height_current s"
  "eye_r_height_current (open_if_needed s) = eye_r_height_current s"
  "eye_l_height_next (open_if_needed s) = (if eye_l_open s \<and> eye_l_height_current s \<le> 1 + eye_l_height_offset s then eye_l_height_default s else eye_l_height_next s)"
  "eye_r_height_next (open_if_needed s) = (if eye_r_open s \<and> eye_r_height_current s \<le> 1 + eye_r_height_offset s then eye_r_height_default s else eye_r_height_next s)"
  "eye_l_height_default (open_if_needed s) = eye_l_height_default s"
  "eye_r_height_default (open_if_needed s) = eye_r_height_default s"
  "eye_l_open (open_if_needed s) = eye_l_open s"
  "eye_r_open (open_if_needed s) = eye_r_open s"
  "eye_l_height_offset (open_if_needed s) = eye_l_height_offset s"
  "eye_r_height_offset (open_if_needed s) = eye_r_height_offset s"
  "eye_l_width_current (open_if_needed s) = eye_l_width_current s"
  "eye_r_width_current (open_if_needed s) = eye_r_width_current s"
  "eye_l_width_next (open_if_needed s) = eye_l_width_next s"
  "eye_r_width_next (open_if_needed s) = eye_r_width_next s"
  "space_between_current (open_if_needed s) = space_between_current s"
  "space_between_next (open_if_needed s) = space_between_next s"
  "eye_l_border_radius_current (open_if_needed s) = eye_l_border_radius_current s"
  "eye_r_border_radius_current (open_if_needed s) = eye_r_border_radius_current s"
  "eye_l_border_radius_next (open_if_needed s) = eye_l_border_radius_next s"
  "eye_r_border_radius_next (open_if_needed s) = eye_r_border_radius_next s"
  "eye_l_x_next (open_if_needed s) = eye_l_x_next s"
  "eye_l_y_next (open_if_needed s) = eye_l_y_next s"
  "eye_r_x_next (open_if_needed s) = eye_r_x_next s"
  "eye_r_y_next (open_if_needed s) = eye_r_y_next s"
  "p_curious (open_if_needed s) = p_curious s"
  "p_cyclops (open_if_needed s) = p_cyclops s"
  "autoblinker (open_if_needed s) = autoblinker s"
  "idle (open_if_needed s) = idle s"
  "idle_animation_timer (open_if_needed s) = idle_animation_timer s"
  "idle_interval (open_if_needed s) = idle_interval s"
  "idle_interval_variation (open_if_needed s) = idle_interval_variation s"
  "blink_timer (open_if_needed s) = blink_timer s"
  "blink_interval (open_if_needed s) = blink_interval s"
  "blink_interval_variation (open_if_needed s) = blink_interval_variation s"
  "screen_width (open_if_needed s) = screen_width s"
  "screen_height (open_if_needed s) = screen_height s"
  "tired (open_if_needed s) = tired s"
  "angry (open_if_needed s) = angry s"
  "happy (open_if_needed s) = happy s"
  by (simp_all add: open_if_needed_def Let_def)

lemma interpolate_widths_fields:
  "eye_l_height_current (interpolate_widths s) = eye_l_height_current s"
  "eye_r_height_current (interpolate_widths s) = eye_r_height_current s"
  "eye_l_height_next (interpolate_widths s) = eye_l_height_next s"
  "eye_r_height_next (interpolate_widths s) = eye_r_height_next s"
  "eye_l_height_default (interpolate_widths s) = eye_l_height_default s"
  "eye_r_height_default (interpolate_widths s) = eye_r_height_default s"
  "eye_l_open (interpolate_widths s) = eye_l_open s"
  "eye_r_open (interpolate_widths s) = eye_r_open s"
  "eye_l_height_offset (interpolate_widths s) = eye_l_height_offset s"
  "eye_r_height_offset (interpolate_widths s) = eye_r_height_offset s"
  "eye_l_width_current (interpolate_widths s) = (eye_l_width_current s + eye_l_width_next s) div 2"
  "eye_r_width_current (interpolate_widths s) = (eye_r_width_current s + eye_r_width_next s) div 2"
  "eye_l_width_next (interpolate_widths s) = eye_l_width_next s"
  "eye_r_width_next (interpolate_widths s) = eye_r_width_next s"
  "space_between_current (interpolate_widths s) = space_between_current s"
  "space_between_next (interpolate_widths s) = space_between_next s"
  "eye_l_border_radius_current (interpolate_widths s) = eye_l_border_radius_current s"
  "eye_r_border_radius_current (interpolate_widths s) = eye_r_border_radius_current s"
  "eye_l_border_radius_next (interpolate_widths s) = eye_l_border_radius_next s"
  "eye_r_border_radius_next (interpolate_widths s) = eye_r_border_radius_next s"
  "eye_l_x_next (interpolate_widths s) = eye_l_x_next s"
  "eye_l_y_next (interpolate_widths s) = eye_l_y_next s"
  "eye_r_x_next (interpolate_widths s) = eye_r_x_next s"
  "eye_r_y_next (interpolate_widths s) = eye_r_y_next s"
  "p_curious (interpolate_widths s) = p_curious s"
  "p_cyclops (interpolate_widths s) = p_cyclops s"
  "autoblinker (interpolate_widths s) = autoblinker s"
  "idle (interpolate_widths s) = idle s"
  "idle_animation_timer (interpolate_widths s) = idle_animation_timer s"
  "idle_interval (interpolate_widths s) = idle_interval s"
  "idle_interval_variation (interpolate_widths s) = idle_interval_variation s"
  "blink_timer (interpolate_widths s) = blink_timer s"
  "blink_interval (interpolate_widths s) = blink_interval s"
  "blink_interval_variation (interpolate_widths s) = blink_interval_variation s"
  "screen_width (interpolate_widths s) = screen_width s"
  "screen_height (interpolate_widths s) = screen_height s"
  "tired (interpolate_widths s) = tired s"
  "angry (interpolate_widths s) = angry s"
  "happy (interpolate_widths s) = happy s"
  by (simp_all add: interpolate_widths_def Let_def)

lemma interpolate_spacing_fields:
  "eye_l_height_current (interpolate_spacing s) = eye_l_height_current s"
  "eye_r_height_current (interpolate_spacing s) = eye_r_height_current s"
  "eye_l_height_next (interpolate_spacing s) = eye_l_height_next s"
  "eye_r_height_next (interpolate_spacing s) = eye_r_height_next s"
  "eye_l_height_default (interpolate_spacing s) = eye_l_height_default s"
  "eye_r_height_default (interpolate_spacing s) = eye_r_height_default s"
  "eye_l_open (interpolate_spacing s) = eye_l_open s"
  "eye_r_open (interpolate_spacing s) = eye_r_open s"
  "eye_l_height_offset (interpolate_spacing s) = eye_l_height_offset s"
  "eye_r_height_offset (interpolate_spacing s) = eye_r_height_offset s"
  "eye_l_width_current (interpolate_spacing s) = eye_l_width_current s"
  "eye_r_width_current (interpolate_spacing s) = eye_r_width_current s"
  "eye_l_width_next (interpolate_spacing s) = eye_l_width_next s"
  "eye_r_width_next (interpolate_spacing s) = eye_r_width_next s"
  "space_between_current (interpolate_spacing s) = (space_between_current s + space_between_next s) div 2"
  "space_between_next (interpolate_spacing s) = space_between_next s"
  "eye_l_border_radius_current (interpolate_spacing s) = eye_l_border_radius_current s"
  "eye_r_border_radius_current (interpolate_spacing s) = eye_r_border_radius_current s"
  "eye_l_border_radius_next (interpolate_spacing s) = eye_l_border_radius_next s"
  "eye_r_border_radius_next (interpolate_spacing s) = eye_r_border_radius_next s"
  "eye_l_x_next (interpolate_spacing s) = eye_l_x_next s"
  "eye_l_y_next (interpolate_spacing s) = eye_l_y_next s"
  "eye_r_x_next (interpolate_spacing s) = eye_r_x_next s"
  "eye_r_y_next (interpolate_spacing s) = eye_r_y_next s"
  "p_curious (interpolate_spacing s) = p_curious s"
  "p_cyclops (interpolate_spacing s) = p_cyclops s"
  "autoblinker (interpolate_spacing s) = autoblinker s"
  "idle (interpolate_spacing s) = idle s"
  "idle_animation_timer (interpolate_spacing s) = idle_animation_timer s"
  "idle_interval (interpolate_spacing s) = idle_interval s"
  "idle_interval_variation (interpolate_spacing s) = idle_interval_variation s"
  "blink_timer (interpolate_spacing s) = blink_timer s"
  "blink_interval (interpolate_spacing s) = blink_interval s"
  "blink_interval_variation (interpolate_spacing s) = blink_interval_variation s"
  "screen_width (interpolate_spacing s) = screen_width s"
  "screen_height (interpolate_spacing s) = screen_height s"
  "tired (interpolate_spacing s) = tired s"
  "angry (interpolate_spacing s) = angry s"
  "happy (interpolate_spacing s) = happy s"
  by (simp_all add: interpolate_spacing_def Let_def)

lemma interpolate_positions_fields:
  "eye_l_height_current (interpolate_positions s) = eye_l_height_current s"
  "eye_r_height_current (interpolate_positions s) = eye_r_height_current s"
  "eye_l_height_next (interpolate_positions s) = eye_l_height_next s"
  "eye_r_height_next (interpolate_positions s) = eye_r_height_next s"
  "eye_l_height_default (interpolate_positions s) = eye_l_height_default s"
  "eye_r_height_default (interpolate_positions s) = eye_r_height_default s"
  "eye_l_open (interpolate_positions s) = eye_l_open s"
  "eye_r_open (interpolate_positions s) = eye_r_open s"
  "eye_l_height_offset (interpolate_positions s) = eye_l_height_offset s"
  "eye_r_height_offset (interpolate_positions s) = eye_r_height_offset s"
  "eye_l_width_current (interpolate_positions s) = eye_l_width_current s"
  "eye_r_width_current (interpolate_positions s) = eye_r_width_current s"
  "eye_l_width_next (interpolate_positions s) = eye_l_width_next s"
  "eye_r_width_next (interpolate_positions s) = eye_r_width_next s"
  "space_between_current (interpolate_positions s) = space_between_current s"
  "space_between_next (interpolate_positions s) = space_between_next s"
  "eye_l_border_radius_current (interpolate_positions s) = eye_l_border_radius_current s"
  "eye_r_border_radius_current (interpolate_positions s) = eye_r_border_radius_current s"
  "eye_l_border_radius_next (interpolate_positions s) = eye_l_border_radius_next s"
  "eye_r_border_radius_next (interpolate_positions s) = eye_r_border_radius_next s"
  "eye_l_x_next (interpolate_positions s) = eye_l_x_next s"
  "eye_l_y_next (interpolate_positions s) = eye_l_y_next s"
  "eye_r_x_next (interpolate_positions s) = eye_l_x_next s + eye_l_width_current s + space_between_current s"
  "eye_r_y_next (interpolate_positions s) = eye_l_y_next s"
  "p_curious (interpolate_positions s) = p_curious s"
  "p_cyclops (interpolate_positions s) = p_cyclops s"
  "autoblinker (interpolate_positions s) = autoblinker s"
  "idle (interpolate_positions s) = idle s"
  "idle_animation_timer (interpolate_positions s) = idle_animation_timer s"
  "idle_interval (interpolate_positions s) = idle_interval s"
  "idle_interval_variation (interpolate_positions s) = idle_interval_variation s"
  "blink_timer (interpolate_positions s) = blink_timer s"
  "blink_interval (interpolate_positions s) = blink_interval s"
  "blink_interval_variation (interpolate_positions s) = blink_interval_variation s"
  "screen_width (interpolate_positions s) = screen_width s"
  "screen_height (interpolate_positions s) = screen_height s"
  "tired (interpolate_positions s) = tired s"
  "angry (interpolate_positions s) = angry s"
  "happy (interpolate_positions s) = happy s"
  by (simp_all add: interpolate_positions_def Let_def)

lemma interpolate_radius_fields:
  "eye_l_height_current (interpolate_radius s) = eye_l_height_current s"
  "eye_r_height_current (interpolate_radius s) = eye_r_height_current s"
  "eye_l_height_next (interpolate_radius s) = eye_l_height_next s"
  "eye_r_height_next (interpolate_radius s) = eye_r_height_next s"
  "eye_l_height_default (interpolate_radius s) = eye_l_height_default s"
  "eye_r_height_default (interpolate_radius s) = eye_r_height_default s"
  "eye_l_open (interpolate_radius s) = eye_l_open s"
  "eye_r_open (interpolate_radius s) = eye_r_open s"
  "eye_l_height_offset (interpolate_radius s) = eye_l_height_offset s"
  "eye_r_height_offset (interpolate_radius s) = eye_r_height_offset s"
  "eye_l_width_current (interpolate_radius s) = eye_l_width_current s"
  "eye_r_width_current (interpolate_radius s) = eye_r_width_current s"
  "eye_l_width_next (interpolate_radius s) = eye_l_width_next s"
  "eye_r_width_next (interpolate_radius s) = eye_r_width_next s"
  "space_between_current (interpolate_radius s) = space_between_current s"
  "space_between_next (interpolate_radius s) = space_between_next s"
  "eye_l_border_radius_current (interpolate_radius s) = (eye_l_border_radius_current s + eye_l_border_radius_next s) div 2"
  "eye_r_border_radius_current (interpolate_radius s) = (eye_r_border_radius_current s + eye_r_border_radius_next s) div 2"
  "eye_l_border_radius_next (interpolate_radius s) = eye_l_border_radius_next s"
  "eye_r_border_radius_next (interpolate_radius s) = eye_r_border_radius_next s"
  "eye_l_x_next (interpolate_radius s) = eye_l_x_next s"
  "eye_l_y_next (interpolate_radius s) = eye_l_y_next s"
  "eye_r_x_next (interpolate_radius s) = eye_r_x_next s"
  "eye_r_y_next (interpolate_radius s) = eye_r_y_next s"
  "p_curious (interpolate_radius s) = p_curious s"
  "p_cyclops (interpolate_radius s) = p_cyclops s"
  "autoblinker (interpolate_radius s) = autoblinker s"
  "idle (interpolate_radius s) = idle s"
  "idle_animation_timer (interpolate_radius s) = idle_animation_timer s"
  "idle_interval (interpolate_radius s) = idle_interval s"
  "idle_interval_variation (interpolate_radius s) = idle_interval_variation s"
  "blink_timer (interpolate_radius s) = blink_timer s"
  "blink_interval (interpolate_radius s) = blink_interval s"
  "blink_interval_variation (interpolate_radius s) = blink_interval_variation s"
  "screen_width (interpolate_radius s) = screen_width s"
  "screen_height (interpolate_radius s) = screen_height s"
  "tired (interpolate_radius s) = tired s"
  "angry (interpolate_radius s) = angry s"
  "happy (interpolate_radius s) = happy s"
  by (simp_all add: interpolate_radius_def Let_def)

lemmas step_fields = clear_buffer_fields curious_mode_fields interpolate_heights_fields
  open_if_needed_fields interpolate_widths_fields interpolate_spacing_fields
  interpolate_positions_fields interpolate_radius_fields

lemma geometry_fields:
  "eye_l_height_current (geometry s) = (eye_l_height_current s + eye_l_height_next s + eye_l_height_offset (geometry s)) div 2"
  "eye_r_height_current (geometry s) = (eye_r_height_current s + eye_r_height_next s + eye_r_height_offset (geometry s)) div 2"
  "eye_l_height_next (geometry s) = (if eye_l_open s \<and> eye_l_height_current (geometry s) \<le> 1 + eye_l_height_offset (geometry s) then eye_l_height_default s else eye_l_height_next s)"
  "eye_r_height_next (geometry s) = (if eye_r_open s \<and> eye_r_height_current (geometry s) \<le> 1 + eye_r_height_offset (geometry s) then eye_r_height_default s else eye_r_height_next s)"
  "eye_l_height_default (geometry s) = eye_l_height_default s"
  "eye_r_height_default (geometry s) = eye_r_height_default s"
  "eye_l_open (geometry s) = eye_l_open s"
  "eye_r_open (geometry s) = eye_r_open s"
  "eye_l_height_offset (geometry s) = (if p_curious s then (if eye_l_x_next s \<le> 10 then 8 else if eye_l_x_next s \<ge> get_screen_constraint_x s - 10 \<and> p_cyclops s then 8 else 0) else 0)"
  "eye_r_height_offset (geometry s) = (if p_curious s then (if eye_r_x_next s \<ge> screen_width s - eye_r_width_current s - 10 then 8 else 0) else 0)"
  "eye_l_width_current (geometry s) = (eye_l_width_current s + eye_l_width_next s) div 2"
  "eye_r_width_current (geometry s) = (eye_r_width_current s + eye_r_width_next s) div 2"
  "eye_l_width_next (geometry s) = eye_l_width_next s"
  "eye_r_width_next (geometry s) = eye_r_width_next s"
  "space_between_current (geometry s) = (space_between_current s + space_between_next s) div 2"
  "space_between_next (geometry s) = space_between_next s"
  "eye_l_border_radius_current (geometry s) = (eye_l_border_radius_current s + eye_l_border_radius_next s) div 2"
  "eye_r_border_radius_current (geometry s) = (eye_r_border_radius_current s + eye_r_border_radius_next s) div 2"
  "eye_l_border_radius_next (geometry s) = eye_l_border_radius_next s"
  "eye_r_border_radius_next (geometry s) = eye_r_border_radius_next s"
  "eye_l_x_next (geometry s) = eye_l_x_next s"
  "eye_l_y_next (geometry s) = eye_l_y_next s"
  "eye_r_x_next (geometry s) = eye_l_x_next s + eye_l_width_current (geometry s) + space_between_current (geometry s)"
  "eye_r_y_next (geometry s) = eye_l_y_next s"
  "p_curious (geometry s) = p_curious s"
  "p_cyclops (geometry s) = p_cyclops s"
  "autoblinker (geometry s) = autoblinker s"
  "idle (geometry s) = idle s"
  "idle_animation_timer (geometry s) = idle_animation_timer s"
  "idle_interval (geometry s) = idle_interval s"
  "idle_interval_variation (geometry s) = idle_interval_variation s"
  "blink_timer (geometry s) = blink_timer s"
  "blink_interval (geometry s) = blink_interval s"
  "blink_interval_variation (geometry s) = blink_interval_variation s"
  "screen_width (geometry s) = screen_width s"
  "screen_height (geometry s) = screen_height s"
  "tired (geometry s) = tired s"
  "angry (geometry s) = angry s"
  "happy (geometry s) = happy s"
  by (simp_all add: geometry_def step_fields get_screen_constraint_x_def)

lemma auto_blink_fields:
  "eye_l_height_current (state_of (auto_blink ev s)) = eye_l_height_current s"
  "eye_r_height_current (state_of (auto_blink ev s)) = eye_r_height_current s"
  "eye_l_height_next (state_of (auto_blink ev s)) = (if autoblinker s \<and> now ev - blink_timer s \<ge> 0 then 1 else eye_l_height_next s)"
  "eye_r_height_next (state_of (auto_blink ev s)) = (if autoblinker s \<and> now ev - blink_timer s \<ge> 0 then 1 else eye_r_height_next s)"
  "eye_l_height_default (state_of (auto_blink ev s)) = eye_l_height_default s"
  "eye_r_height_default (state_of (auto_blink ev s)) = eye_r_height_default s"
  "eye_l_open (state_of (auto_blink ev s)) = (if autoblinker s \<and> now ev - blink_timer s \<ge> 0 then True else eye_l_open s)"
  "eye_r_open (state_of (auto_blink ev s)) = (if autoblinker s \<and> now ev - blink_timer s \<ge> 0 then True else eye_r_open s)"
  "eye_l_height_offset (state_of (auto_blink ev s)) = eye_l_height_offset s"
  "eye_r_height_offset (state_of (auto_blink ev s)) = eye_r_height_offset s"
  "eye_l_width_current (state_of (auto_blink ev s)) = eye_l_width_current s"
  "eye_r_width_current (state_of (auto_blink ev s)) = eye_r_width_current s"
  "eye_l_width_next (state_of (auto_blink ev s)) = eye_l_width_next s"
  "eye_r_width_next (state_of (auto_blink ev s)) = eye_r_width_next s"
  "space_between_current (state_of (auto_blink ev s)) = space_between_current s"
  "space_between_next (state_of (auto_blink ev s)) = space_between_next s"
  "eye_l_border_radius_current (state_of (auto_blink ev s)) = eye_l_border_radius_current s"
  "eye_r_border_radius_current (state_of (auto_blink ev s)) = eye_r_border_radius_current s"
  "eye_l_border_radius_next (state_of (auto_blink ev s)) = eye_l_border_radius_next s"
  "eye_r_border_radius_next (state_of (auto_blink ev s)) = eye_r_border_radius_next s"
  "eye_l_x_next (state_of (auto_blink ev s)) = eye_l_x_next s"
  "eye_l_y_next (state_of (auto_blink ev s)) = eye_l_y_next s"
  "eye_r_x_next (state_of (auto_blink ev s)) = eye_r_x_next s"
  "eye_r_y_next (state_of (auto_blink ev s)) = eye_r_y_next s"
  "p_curious (state_of (auto_blink ev s)) = p_curious s"
  "p_cyclops (state_of (auto_blink ev s)) = p_cyclops s"
  "autoblinker (state_of (auto_blink ev s)) = autoblinker s"
  "idle (state_of (auto_blink ev s)) = idle s"
  "idle_animation_timer (state_of (auto_blink ev s)) = idle_animation_timer s"
  "idle_interval (state_of (auto_blink ev s)) = idle_interval s"
  "idle_interval_variation (state_of (auto_blink ev s)) = idle_interval_variation s"
  "blink_interval (state_of (auto_blink ev s)) = blink_interval s"
  "blink_interval_variation (state_of (auto_blink ev s)) = blink_interval_variation s"
  "screen_width (state_of (auto_blink ev s)) = screen_width s"
  "screen_height (state_of (auto_blink ev s)) = screen_height s"
  "tired (state_of (auto_blink ev s)) = tired s"
  "angry (state_of (auto_blink ev s)) = angry s"
  "happy (state_of (auto_blink ev s)) = happy s"
  by (simp_all add: auto_blink_def blink_def close_def open_eyes_def Let_def split: option.splits)

lemma idle_mode_fields:
  "eye_l_height_current (state_of (idle_mode ev s)) = eye_l_height_current s"
  "eye_r_height_current (state_of (idle_mode ev s)) = eye_r_height_current s"
  "eye_l_height_next (state_of (idle_mode ev s)) = eye_l_height_next s"
  "eye_r_height_next (state_of (idle_mode ev s)) = eye_r_height_next s"
  "eye_l_height_default (state_of (idle_mode ev s)) = eye_l_height_default s"
  "eye_r_height_default (state_of (idle_mode ev s)) = eye_r_height_default s"
  "eye_l_open (state_of (idle_mode ev s)) = eye_l_open s"
  "eye_r_open (state_of (idle_mode ev s)) = eye_r_open s"
  "eye_l_height_offset (state_of (idle_mode ev s)) = eye_l_height_offset s"
  "eye_r_height_offset (state_of (idle_mode ev s)) = eye_r_height_offset s"
  "eye_l_width_current (state_of (idle_mode ev s)) = eye_l_width_current s"
  "eye_r_width_current (state_of (idle_mode ev s)) = eye_r_width_current s"
  "eye_l_width_next (state_of (idle_mode ev s)) = eye_l_width_next s"
  "eye_r_width_next (state_of (idle_mode ev s)) = eye_r_width_next s"
  "space_between_current (state_of (idle_mode ev s)) = space_between_current s"
  "space_between_next (state_of (idle_mode ev s)) = space_between_next s"
  "eye_l_border_radius_current (state_of (idle_mode ev s)) = eye_l_border_radius_current s"
  "eye_r_border_radius_current (state_of (idle_mode ev s)) = eye_r_border_radius_current s"
  "eye_l_border_radius_next (state_of (idle_mode ev s)) = eye_l_border_radius_next s"
  "eye_r_border_radius_next (state_of (idle_mode ev s)) = eye_r_border_radius_next s"
  "eye_r_x_next (state_of (idle_mode ev s)) = eye_r_x_next s"
  "eye_r_y_next (state_of (idle_mode ev s)) = eye_r_y_next s"
  "p_curious (state_of (idle_mode ev s)) = p_curious s"
  "p_cyclops (state_of (idle_mode ev s)) = p_cyclops s"
  "autoblinker (state_of (idle_mode ev s)) = autoblinker s"
  "idle (state_of (idle_mode ev s)) = idle s"
  "idle_interval (state_of (idle_mode ev s)) = idle_interval s"
  "idle_interval_variation (state_of (idle_mode ev s)) = idle_interval_variation s"
  "blink_timer (state_of (idle_mode ev s)) = blink_timer s"
  "blink_interval (state_of (idle_mode ev s)) = blink_interval s"
  "blink_interval_variation (state_of (idle_mode ev s)) = blink_interval_variation s"
  "screen_width (state_of (idle_mode ev s)) = screen_width s"
  "screen_height (state_of (idle_mode ev s)) = screen_height s"
  "tired (state_of (idle_mode ev s)) = tired s"
  "angry (state_of (idle_mode ev s)) = angry s"
  "happy (state_of (idle_mode ev s)) = happy s"
  by (simp_all add: idle_mode_def Let_def split: option.splits)

lemma stable_draw_eyes: "stable (state_of (draw_eyes ev s)) = stable (geometry s)"
proof (rule draw_eyes_preserves [where P = "\<lambda>x. stable x = stable (geometry s)"])
  show "stable s' = stable (geometry s)" if "core s' = core s0" "stable s0 = stable (geometry s)"
    for s0 s'
  proof -
    from that(1) have "stable s' = stable s0" by (simp add: core_def stable_def)
    with that(2) show ?thesis by simp
  qed
  show "stable (state_of (auto_blink ev s0)) = stable (geometry s)"
    if "stable s0 = stable (geometry s)" for s0
  proof -
    have "stable (state_of (auto_blink ev s0)) = stable s0"
      by (simp add: stable_def auto_blink_fields)
    with that show ?thesis by simp
  qed
  show "stable (state_of (idle_mode ev s0)) = stable (geometry s)"
    if "stable s0 = stable (geometry s)" for s0
  proof -
    have "stable (state_of (idle_mode ev s0)) = stable s0"
      by (simp add: stable_def idle_mode_fields)
    with that show ?thesis by simp
  qed
qed simp

lemma draw_eyes_fields:
  "eye_l_height_current (state_of (draw_eyes ev s)) = eye_l_height_current (geometry s)"
  "eye_r_height_current (state_of (draw_eyes ev s)) = eye_r_height_current (geometry s)"
  "eye_l_height_default (state_of (draw_eyes ev s)) = eye_l_height_default (geometry s)"
  "eye_r_height_default (state_of (draw_eyes ev s)) = eye_r_height_default (geometry s)"
  "eye_l_height_offset (state_of (draw_eyes ev s)) = eye_l_height_offset (geometry s)"
  "eye_r_height_offset (state_of (draw_eyes ev s)) = eye_r_height_offset (geometry s)"
  "eye_l_width_current (state_of (draw_eyes ev s)) = eye_l_width_current (geometry s)"
  "eye_r_width_current (state_of (draw_eyes ev s)) = eye_r_width_current (geometry s)"
  "eye_l_width_next (state_of (draw_eyes ev s)) = eye_l_width_next (geometry s)"
  "eye_r_width_next (state_of (draw_eyes ev s)) = eye_r_width_next (geometry s)"
  "space_between_current (state_of (draw_eyes ev s)) = space_between_current (geometry s)"
  "space_between_next (state_of (draw_eyes ev s)) = space_between_next (geometry s)"
  "eye_l_border_radius_current (state_of (draw_eyes ev s)) = eye_l_border_radius_current (geometry s)"
  "eye_r_border_radius_current (state_of (draw_eyes ev s)) = eye_r_border_radius_current (geometry s)"
  "eye_l_border_radius_next (state_of (draw_eyes ev s)) = eye_l_border_radius_next (geometry s)"
  "eye_r_border_radius_next (state_of (draw_eyes ev s)) = eye_r_border_radius_next (geometry s)"
  "eye_r_x_next (state_of (draw_eyes ev s)) = eye_r_x_next (geometry s)"
  "eye_r_y_next (state_of (draw_eyes ev s)) = eye_r_y_next (geometry s)"
  "p_curious (state_of (draw_eyes ev s)) = p_curious (geometry s)"
  "p_cyclops (state_of (draw_eyes ev s)) = p_cyclops (geometry s)"
  "autoblinker (state_of (draw_eyes ev s)) = autoblinker (geometry s)"
  "idle (state_of (draw_eyes ev s)) = idle (geometry s)"
  "idle_interval (state_of (draw_eyes ev s)) = idle_interval (geometry s)"
  "idle_interval_variation (state_of (draw_eyes ev s)) = idle_interval_variation (geometry s)"
  "blink_interval (state_of (draw_eyes ev s)) = blink_interval (geometry s)"
  "blink_interval_variation (state_of (draw_eyes ev s)) = blink_interval_variation (geometry s)"
  "screen_width (state_of (draw_eyes ev s)) = screen_width (geometry s)"
  "screen_height (state_of (draw_eyes ev s)) = screen_height (geometry s)"
  "tired (state_of (draw_eyes ev s)) = tired (geometry s)"
  "angry (state_of (draw_eyes ev s)) = angry (geometry s)"
  "happy (state_of (draw_eyes ev s)) = happy (geometry s)"
  using stable_draw_eyes [of ev s] by (simp_all add: stable_def)

subsection \<open>The right eye's target\<close>

lemma demo_fields:
  "eye_l_height_current demo = 1" "eye_l_height_next demo = 36" "eye_l_height_default demo = 36"
  "eye_l_width_current demo = 36" "eye_l_width_next demo = 36"
  "eye_r_width_current demo = 36" "eye_r_width_next demo = 36"
  "space_between_current demo = 10" "space_between_next demo = 10"
  "eye_l_border_radius_current demo = 8" "eye_l_border_radius_next demo = 8"
  "eye_l_x_next demo = 79" "eye_l_y_next demo = 142" "eye_r_x_next demo = 125"
  "screen_width demo = 240" "screen_height demo = 320"
  "\<not> p_curious demo" "\<not> autoblinker demo" "\<not> idle demo" "\<not> eye_l_open demo"
  "idle_animation_timer demo = 0" "\<not> p_laugh demo" "\<not> p_confused demo"
  by (simp_all add: demo_def fresh_def Let_def int_half_def)

lemma idle_mode_quiet:
  "\<not> (idle s \<and> now ev - idle_animation_timer s \<ge> 0) \<Longrightarrow> idle_mode ev s = Inr s"
  by (auto simp add: idle_mode_def)

lemma auto_blink_off: "\<not> autoblinker s \<Longrightarrow> auto_blink ev s = Inr s"
  by (simp add: auto_blink_def)

lemma left_target_kept:
  assumes "\<not> (idle s \<and> now ev - idle_animation_timer s \<ge> 0)"
  shows "eye_l_x_next (state_of (draw_eyes ev s)) = eye_l_x_next s
       \<and> eye_l_y_next (state_of (draw_eyes ev s)) = eye_l_y_next s"
proof -
  let ?P = "\<lambda>x. eye_l_x_next x = eye_l_x_next s \<and> eye_l_y_next x = eye_l_y_next s
              \<and> idle x = idle s \<and> idle_animation_timer x = idle_animation_timer s"
  have "?P (state_of (draw_eyes ev s))"
  proof (rule draw_eyes_preserves [where P = ?P])
    show "?P s'" if "core s' = core s0" "?P s0" for s0 s'
      using that by (simp add: core_def)
    show "?P (state_of (auto_blink ev s0))" if "?P s0" for s0
      using that by (simp add: auto_blink_fields)
    show "?P (state_of (idle_mode ev s0))" if "?P s0" for s0
    proof -
      from that assms have "idle_mode ev s0 = Inr s0" by (simp add: idle_mode_quiet)
      with that show ?thesis by simp
    qed
    show "?P (geometry s)" by (simp add: geometry_fields)
  qed
  then show ?thesis by simp
qed

text \<open>
  Claim C3, amended. At the end of every \<open>draw_eyes\<close> call in which the idle macro does
  not fire (idle mode off, or its timer not yet due), and so at the start of the next
  tick when no mutator comes between, \<open>eye_r_x_next = eye_l_x_next + eye_l_width_current
  + space_between_current\<close> and \<open>eye_r_y_next = eye_l_y_next\<close>, in every configuration,
  cyclops mode included; this holds also when the call raises.
\<close>

theorem right_target_follows:
  assumes "\<not> (idle s \<and> now ev - idle_animation_timer s \<ge> 0)"
  shows "eye_r_x_next (state_of (draw_eyes ev s)) =
           eye_l_x_next (state_of (draw_eyes ev s))
           + eye_l_width_current (state_of (draw_eyes ev s))
           + space_between_current (state_of (draw_eyes ev s))
       \<and> eye_r_y_next (state_of (draw_eyes ev s)) = eye_l_y_next (state_of (draw_eyes ev s))"
  using left_target_kept [OF assms] by (simp add: draw_eyes_fields geometry_fields)

theorem right_target_follows_witness:
  "\<not> idle demo
   \<and> eye_r_x_next (state_of (draw_eyes ev0 demo)) = 125
   \<and> eye_l_x_next (state_of (draw_eyes ev0 demo)) = 79
   \<and> eye_l_width_current (state_of (draw_eyes ev0 demo)) = 36
   \<and> space_between_current (state_of (draw_eyes ev0 demo)) = 10"
  using right_target_follows [of demo ev0] left_target_kept [of demo ev0]
  by (simp add: draw_eyes_fields geometry_fields demo_fields)

lemma core_draw_eyes_idle:
  assumes "\<not> autoblinker (geometry s)"
  shows "core (state_of (draw_eyes ev s)) =
         core (state_of (idle_mode ev (confused ev (laughing ev (geometry s)))))"
proof (cases "idle_mode ev (confused ev (laughing ev (geometry s)))")
  case (Inl x)
  with assms show ?thesis by (cases x) (simp add: draw_eyes_macros auto_blink_off)
next
  case (Inr s2)
  with assms show ?thesis by (simp add: draw_eyes_macros auto_blink_off core_paint)
qed

lemma idle_mode_fires:
  assumes "idle s" "now ev - idle_animation_timer s \<ge> 0" "0 \<le> get_screen_constraint_x s"
  shows "eye_l_x_next (state_of (idle_mode ev s)) = rand_idle_x ev mod (get_screen_constraint_x s + 1)"
  using assms
  by (simp add: idle_mode_def randint_def Let_def get_screen_constraint_x_def
        get_screen_constraint_y_def split: option.splits)

theorem right_target_counterexample:
  "\<not> (eye_r_x_next (state_of (draw_eyes ev0 (set_idle_mode True None None demo))) =
        eye_l_x_next (state_of (draw_eyes ev0 (set_idle_mode True None None demo)))
        + eye_l_width_current (state_of (draw_eyes ev0 (set_idle_mode True None None demo)))
        + space_between_current (state_of (draw_eyes ev0 (set_idle_mode True None None demo))))"
proof -
  let ?s = "set_idle_mode True None None demo"
  let ?x = "confused ev0 (laughing ev0 (geometry ?s))"
  have sf: "idle ?s" "idle_animation_timer ?s = 0" "\<not> autoblinker ?s" "\<not> p_curious ?s"
    "eye_l_x_next ?s = 79" "eye_l_width_current ?s = 36" "eye_l_width_next ?s = 36"
    "eye_r_width_current ?s = 36" "eye_r_width_next ?s = 36"
    "space_between_current ?s = 10" "space_between_next ?s = 10" "screen_width ?s = 240"
    by (simp_all add: set_idle_mode_def demo_fields)
  have cx: "core ?x = core (geometry ?s)"
    by (simp add: core_pure_steps)
  have xf: "idle ?x" "idle_animation_timer ?x = 0" "get_screen_constraint_x ?x = 158"
    using cx by (simp_all add: core_def get_screen_constraint_x_def geometry_fields sf)
  have "eye_l_x_next (state_of (idle_mode ev0 ?x)) = 0"
    using idle_mode_fires [of ?x ev0] xf by (simp add: ev0_def)
  moreover have "core (state_of (draw_eyes ev0 ?s)) = core (state_of (idle_mode ev0 ?x))"
    by (rule core_draw_eyes_idle) (simp add: geometry_fields sf)
  ultimately have l: "eye_l_x_next (state_of (draw_eyes ev0 ?s)) = 0"
    by (simp add: core_def)
  have r: "eye_r_x_next (state_of (draw_eyes ev0 ?s)) = 125"
    "eye_l_width_current (state_of (draw_eyes ev0 ?s)) = 36"
    "space_between_current (state_of (draw_eyes ev0 ?s)) = 10"
    by (simp_all add: draw_eyes_fields geometry_fields sf)
  from l r show ?thesis by simp
qed

subsection \<open>Sizes and radius\<close>

lemma sizes_draw_eyes: "sizes_nonneg s \<Longrightarrow> sizes_nonneg (state_of (draw_eyes ev s))"
proof (rule draw_eyes_preserves [where P = sizes_nonneg])
  show "sizes_nonneg s'" if "core s' = core s0" "sizes_nonneg s0" for s0 s'
    using that by (simp add: core_def sizes_nonneg_def)
  show "sizes_nonneg (state_of (auto_blink ev s0))" if "sizes_nonneg s0" for s0
    using that by (simp add: sizes_nonneg_def auto_blink_fields)
  show "sizes_nonneg (state_of (idle_mode ev s0))" if "sizes_nonneg s0" for s0
    using that by (simp add: sizes_nonneg_def idle_mode_fields)
  show "sizes_nonneg (geometry s)" if "sizes_nonneg s"
    using that by (simp add: sizes_nonneg_def geometry_fields)
qed

lemma sizes_run_ticks: "sizes_nonneg s \<Longrightarrow> sizes_nonneg (state_of (run_ticks evs s))"
  unfolding run_ticks_def
  by (rule in_order_state_of [where P = sizes_nonneg]) (auto simp add: sizes_draw_eyes)

lemma draw_rounded_rect_clamp:
  "draw_rounded_rect sw sh x y w h r c buf =
   draw_rounded_rect sw sh x y w h (min r (min w h div 2)) c buf"
proof -
  have "min (min r (min w h div 2)) (min (w div 2) (h div 2)) = min r (min (w div 2) (h div 2))"
    by (simp add: min_def)
  then show ?thesis
    by (simp add: draw_rounded_rect_def)
qed

theorem sizes_counterexample:
  "\<not> (2 * eye_l_border_radius_current (state_of (draw_eyes ev0 (blink None None demo)))
        \<le> min (eye_l_width_current (state_of (draw_eyes ev0 (blink None None demo))))
              (eye_l_height_current (state_of (draw_eyes ev0 (blink None None demo)))))
   \<and> \<not> (eye_l_border_radius_current (state_of (draw_eyes ev0 (blink None None demo)))
        \<le> min (eye_l_width_current (state_of (draw_eyes ev0 (blink None None demo))))
              (eye_l_height_current (state_of (draw_eyes ev0 (blink None None demo)))) div 2)
   \<and> eye_l_height_current (state_of (draw_eyes ev0 (eyes_height (Some (- 10)) None demo))) < 0"
proof -
  have b: "eye_l_height_current (blink None None demo) = 1"
    "eye_l_height_next (blink None None demo) = 1"
    "eye_l_width_current (blink None None demo) = 36"
    "eye_l_width_next (blink None None demo) = 36"
    "eye_l_border_radius_current (blink None None demo) = 8"
    "eye_l_border_radius_next (blink None None demo) = 8"
    "\<not> p_curious (blink None None demo)"
    by (simp_all add: blink_def close_def open_eyes_def demo_fields)
  have h: "eye_l_height_current (eyes_height (Some (- 10)) None demo) = 1"
    "eye_l_height_next (eyes_height (Some (- 10)) None demo) = - 10"
    "\<not> p_curious (eyes_height (Some (- 10)) None demo)"
    by (simp_all add: eyes_height_def demo_fields)
  show ?thesis
    by (simp add: draw_eyes_fields geometry_fields b h)
qed

text \<open>
  Claim C1, amended. If the current, target and default heights and the current and
  target widths of both eyes are non-negative, then after any number of ticks (also
  when one of them raises) \<open>height_current \<ge> 0\<close> and \<open>width_current \<ge> 0\<close> for both
  eyes, and these conditions still hold. \<open>border_radius_current\<close> itself is not bounded
  by the size of the eye; the bound is met where the eye is drawn: \<open>draw_rounded_rect\<close>
  with the eye's width, height and radius draws what it draws with the radius
  \<open>min(border_radius_current, min(width_current, height_current) div 2)\<close>.
\<close>

theorem sizes_stay_nonneg:
  assumes "sizes_nonneg s"
  shows "0 \<le> eye_l_height_current (state_of (run_ticks evs s))
       \<and> 0 \<le> eye_r_height_current (state_of (run_ticks evs s))
       \<and> 0 \<le> eye_l_width_current (state_of (run_ticks evs s))
       \<and> 0 \<le> eye_r_width_current (state_of (run_ticks evs s))
       \<and> sizes_nonneg (state_of (run_ticks evs s))
       \<and> draw_rounded_rect sw sh x y (eye_l_width_current (state_of (run_ticks evs s)))
            (eye_l_height_current (state_of (run_ticks evs s)))
            (eye_l_border_radius_current (state_of (run_ticks evs s))) c buf
          = draw_rounded_rect sw sh x y (eye_l_width_current (state_of (run_ticks evs s)))
            (eye_l_height_current (state_of (run_ticks evs s)))
            (min (eye_l_border_radius_current (state_of (run_ticks evs s)))
              (min (eye_l_width_current (state_of (run_ticks evs s)))
                (eye_l_height_current (state_of (run_ticks evs s))) div 2)) c buf
       \<and> draw_rounded_rect sw sh x y (eye_r_width_current (state_of (run_ticks evs s)))
            (eye_r_height_current (state_of (run_ticks evs s)))
            (eye_r_border_radius_current (state_of (run_ticks evs s))) c buf
          = draw_rounded_rect sw sh x y (eye_r_width_current (state_of (run_ticks evs s)))
            (eye_r_height_current (state_of (run_ticks evs s)))
            (min (eye_r_border_radius_current (state_of (run_ticks evs s)))
              (min (eye_r_width_current (state_of (run_ticks evs s)))
                (eye_r_height_current (state_of (run_ticks evs s))) div 2)) c buf"
proof -
  have "sizes_nonneg (state_of (run_ticks evs s))"
    using assms by (rule sizes_run_ticks)
  then show ?thesis
    using draw_rounded_rect_clamp by (simp add: sizes_nonneg_def)
qed

lemma sizes_demo: "sizes_nonneg demo"
  by (simp add: sizes_nonneg_def demo_def fresh_def Let_def)

theorem sizes_stay_nonneg_witness:
  "sizes_nonneg demo
   \<and> 0 \<le> eye_l_height_current (state_of (run_ticks [ev0, ev0, ev0] demo))
   \<and> 0 \<le> eye_r_width_current (state_of (run_ticks [ev0, ev0, ev0] demo))"
  using sizes_stay_nonneg [OF sizes_demo, of "[ev0, ev0, ev0]"] sizes_demo by simp

subsection \<open>Mood flags\<close>

lemma moods_draw_eyes: "at_most_one_mood (state_of (draw_eyes ev s)) = at_most_one_mood s"
  by (simp add: at_most_one_mood_def draw_eyes_fields geometry_fields)

lemma moods_set_mood: "at_most_one_mood (set_mood v s)"
  by (simp add: at_most_one_mood_def set_mood_def TIRED_def ANGRY_def HAPPY_def)

lemma moods_mutators:
  "at_most_one_mood (state_of (set_framerate fps s)) = at_most_one_mood s"
  "at_most_one_mood (eyes_width l r s) = at_most_one_mood s"
  "at_most_one_mood (eyes_height l r s) = at_most_one_mood s"
  "at_most_one_mood (eyes_radius l r s) = at_most_one_mood s"
  "at_most_one_mood (eyes_spacing v s) = at_most_one_mood s"
  "at_most_one_mood (set_curious b s) = at_most_one_mood s"
  "at_most_one_mood (set_cyclops b s) = at_most_one_mood s"
  "at_most_one_mood (horiz_flicker b a s) = at_most_one_mood s"
  "at_most_one_mood (vert_flicker b a s) = at_most_one_mood s"
  "at_most_one_mood (set_auto_blinker b i1 i2 s) = at_most_one_mood s"
  "at_most_one_mood (set_idle_mode b i1 i2 s) = at_most_one_mood s"
  "at_most_one_mood (set_position d s) = at_most_one_mood s"
  "at_most_one_mood (close bl br s) = at_most_one_mood s"
  "at_most_one_mood (open_eyes bl br s) = at_most_one_mood s"
  "at_most_one_mood (blink bl br s) = at_most_one_mood s"
  "at_most_one_mood (confuse s) = at_most_one_mood s"
  "at_most_one_mood (laugh s) = at_most_one_mood s"
  "at_most_one_mood (state_of (wink bl br s)) = at_most_one_mood s"
  by (simp_all add: at_most_one_mood_def set_framerate_def eyes_width_def eyes_height_def
        eyes_radius_def eyes_spacing_def set_curious_def set_cyclops_def horiz_flicker_def
        vert_flicker_def set_auto_blinker_def set_idle_mode_def set_position_def close_def
        open_eyes_def blink_def confuse_def laugh_def wink_def Let_def split: option.splits)

lemma moods_on_buffer: "at_most_one_mood (state_of (on_buffer f s)) = at_most_one_mood s"
  using core_on_buffer [of f s] by (simp add: core_def at_most_one_mood_def)

lemma state_of_on_eyes: "eyes (state_of (on_eyes f e)) = state_of (f (eyes e))"
  "sequences (state_of (on_eyes f e)) = sequences e"
  by (auto simp add: on_eyes_def split: sum.splits prod.splits)

lemma update_steps_ok:
  "steps_ok sts \<Longrightarrow> at_most_one_mood owner \<Longrightarrow>
   steps_ok (fst (state_of (update_steps tk start sts owner)))
   \<and> at_most_one_mood (snd (state_of (update_steps tk start sts owner)))"
proof (induction sts arbitrary: owner)
  case Nil
  then show ?case by simp
next
  case (Cons st sts)
  from Cons.prems have k: "keeps_mood_flags (callback st)" and rest: "steps_ok sts"
    by (simp_all add: steps_ok_def)
  from k Cons.prems(2) have cb: "at_most_one_mood (state_of (callback st owner))"
    by (simp add: keeps_mood_flags_def)
  show ?case
  proof (cases "\<not> step_done st \<and> \<not> tk - start < ms_timing st")
    case False
    with Cons.IH [OF rest Cons.prems(2)] k show ?thesis
      by (auto simp add: step_update_def steps_ok_def split: sum.splits prod.splits)
  next
    case True
    show ?thesis
    proof (cases "callback st owner")
      case (Inl x)
      with True cb k rest show ?thesis
        by (cases x) (simp add: step_update_def steps_ok_def)
    next
      case (Inr o1)
      with cb have "at_most_one_mood o1" by simp
      from Cons.IH [OF rest this] True Inr k show ?thesis
        by (auto simp add: step_update_def steps_ok_def split: sum.splits prod.splits)
    qed
  qed
qed

lemma sequence_update_ok:
  "steps_ok (steps sq) \<Longrightarrow> at_most_one_mood owner \<Longrightarrow>
   steps_ok (steps (fst (state_of (sequence_update tk sq owner))))
   \<and> at_most_one_mood (snd (state_of (sequence_update tk sq owner)))"
proof (cases "p_start sq")
  case None
  assume "steps_ok (steps sq)" "at_most_one_mood owner"
  with None show ?thesis by (simp add: sequence_update_def)
next
  case (Some start)
  assume "steps_ok (steps sq)" "at_most_one_mood owner"
  from update_steps_ok [OF this, of tk start] Some show ?thesis
    by (auto simp add: sequence_update_def split: sum.splits prod.splits)
qed

lemma update_sequences_ok:
  "sequences_ok sqs \<Longrightarrow> at_most_one_mood owner \<Longrightarrow>
   sequences_ok (fst (state_of (update_sequences tk sqs owner)))
   \<and> at_most_one_mood (snd (state_of (update_sequences tk sqs owner)))"
proof (induction sqs arbitrary: owner)
  case Nil
  then show ?case by simp
next
  case (Cons sq sqs)
  from Cons.prems have h: "steps_ok (steps sq)" and rest: "sequences_ok sqs"
    by (simp_all add: sequences_ok_def)
  note su = sequence_update_ok [OF h Cons.prems(2), of tk]
  show ?case
  proof (cases "sequence_update tk sq owner")
    case (Inl x)
    with su rest show ?thesis
      by (cases x) (auto simp add: sequences_ok_def)
  next
    case (Inr p)
    obtain sq' o1 where p: "p = (sq', o1)" by (cases p)
    with su Inr have "steps_ok (steps sq')" "at_most_one_mood o1" by simp_all
    from Cons.IH [OF rest this(2)] this(1) Inr p show ?thesis
      by (auto simp add: sequences_ok_def split: sum.splits prod.splits)
  qed
qed

lemma sequences_update_all_ok:
  "engine_ok e \<Longrightarrow> engine_ok (state_of (sequences_update_all tk e))"
  using update_sequences_ok [of "sequences e" "eyes e" tk]
  by (auto simp add: engine_ok_def sequences_update_all_def split: sum.splits prod.splits)

lemma update_ok: "engine_ok e \<Longrightarrow> engine_ok (state_of (update clk e))"
proof -
  assume e: "engine_ok e"
  show ?thesis
  proof (cases "sequences_update_all (seq_ticks clk) e")
    case (Inl x)
    with sequences_update_all_ok [OF e, of "seq_ticks clk"] show ?thesis
      by (cases x) (simp add: update_def)
  next
    case (Inr e1)
    with sequences_update_all_ok [OF e, of "seq_ticks clk"] have e1: "engine_ok e1" by simp
    then have "at_most_one_mood (state_of (draw_eyes (draw_env clk) (eyes e1)))"
      by (simp add: moods_draw_eyes engine_ok_def)
    with e1 Inr show ?thesis
      by (auto simp add: update_def engine_ok_def at_most_one_mood_def
            split: sum.splits prod.splits)
  qed
qed

lemma on_sequence_ok:
  assumes "engine_ok e" and "\<And>sq. steps_ok (steps sq) \<Longrightarrow> steps_ok (steps (f sq))"
  shows "engine_ok (on_sequence i f e)"
  using assms
  by (auto simp add: engine_ok_def on_sequence_def sequences_ok_def set_conv_nth nth_list_update)

lemma apply_op_ok:
  assumes "callbacks_keep_mood_flags x" and "engine_ok e"
  shows "engine_ok (state_of (apply_op x e))"
proof (cases x)
  case (Update clk)
  with assms show ?thesis by (simp add: update_ok)
next
  case (Sequences_add nm)
  with assms show ?thesis
    by (simp add: engine_ok_def sequences_add_def sequences_ok_def steps_ok_def)
next
  case (Sequence_step i ms cb)
  with assms show ?thesis
    by (auto intro!: on_sequence_ok simp add: sequence_step_def steps_ok_def)
next
  case (Sequence_start i t)
  with assms show ?thesis
    by (auto intro!: on_sequence_ok simp add: sequence_start_def)
next
  case (Sequence_reset i)
  with assms show ?thesis
    by (auto intro!: on_sequence_ok simp add: sequence_reset_def steps_ok_def)
qed (use assms in \<open>simp_all add: engine_ok_def state_of_on_eyes moods_mutators moods_draw_eyes
       moods_on_buffer moods_set_mood\<close>)

lemma run_ops_ok:
  "\<forall>x\<in>set ops. callbacks_keep_mood_flags x \<Longrightarrow> engine_ok e \<Longrightarrow> engine_ok (run_ops ops e)"
  by (induction ops arbitrary: e) (simp_all add: apply_op_ok)

lemma fresh_ok: "engine_ok \<lparr>eyes = fresh d w h f bg fg, sequences = []\<rparr>"
  by (simp add: engine_ok_def sequences_ok_def at_most_one_mood_def fresh_def Let_def)

text \<open>
  Claim C10. At most one of the flags \<open>tired\<close>, \<open>angry\<close>, \<open>happy\<close> is true after any
  sequence of public operations on a new engine, \<open>update\<close> and the operations on
  sequences included, also when operations raise: the mood setter gives the three
  flags by comparing the new mood with three different constants, whatever the value,
  and no other operation writes them. Callbacks are code of the caller; those
  registered are taken to keep the property, as every callback made of public
  operations does.
\<close>

theorem mood_flags_exclusive:
  assumes "\<forall>x\<in>set ops. callbacks_keep_mood_flags x"
  shows "at_most_one_mood (eyes (run_ops ops \<lparr>eyes = fresh d w h f bg fg, sequences = []\<rparr>))
       \<and> at_most_one_mood (set_mood v s)"
  using run_ops_ok [OF assms fresh_ok] by (simp add: engine_ok_def moods_set_mood)

theorem mood_flags_exclusive_witness:
  "at_most_one_mood (eyes (run_ops
      [Set_mood 1, Sequences_add ''hello'', Sequence_step 0 0 (returns (set_mood 3)),
       Sequence_start 0 0,
       Update \<lparr>seq_ticks = 20, update_now = 20, draw_env = ev0\<rparr>, Set_mood 9,
       Wink None None, Draw_eyes ev0]
      \<lparr>eyes = fresh False 240 320 60 (0, 0, 0) (173, 216, 230), sequences = []\<rparr>))
   \<and> tired (set_mood 1 demo) \<and> \<not> angry (set_mood 1 demo) \<and> \<not> happy (set_mood 1 demo)
   \<and> \<not> tired (set_mood 9 demo) \<and> \<not> angry (set_mood 9 demo) \<and> \<not> happy (set_mood 9 demo)"
proof -
  let ?ops = "[Set_mood 1, Sequences_add ''hello'', Sequence_step 0 0 (returns (set_mood 3)),
       Sequence_start 0 0,
       Update \<lparr>seq_ticks = 20, update_now = 20, draw_env = ev0\<rparr>, Set_mood 9,
       Wink None None, Draw_eyes ev0]"
  have h: "\<forall>x\<in>set ?ops. callbacks_keep_mood_flags x"
    by (simp add: keeps_mood_flags_def moods_set_mood)
  have m: "tired (set_mood 1 demo) \<and> \<not> angry (set_mood 1 demo) \<and> \<not> happy (set_mood 1 demo)
    \<and> \<not> tired (set_mood 9 demo) \<and> \<not> angry (set_mood 9 demo) \<and> \<not> happy (set_mood 9 demo)"
    by (simp add: set_mood_def TIRED_def ANGRY_def HAPPY_def)
  from mood_flags_exclusive [OF h, of False 240 320 60 "(0, 0, 0)" "(173, 216, 230)"]
  have "at_most_one_mood (eyes (run_ops ?ops
      \<lparr>eyes = fresh False 240 320 60 (0, 0, 0) (173, 216, 230), sequences = []\<rparr>))"
    by (rule conjunct1)
  with m show ?thesis by blast
qed

subsection \<open>Clipping of the drawing helpers\<close>

lemma appends_clippedI:
  "(\<And>buf. \<exists>ws. f buf = Inr (buf @ ws) \<and> (\<forall>a\<in>set ws. clipped sw sh a)) \<Longrightarrow>
   appends_clipped sw sh f"
  by (simp add: appends_clipped_def)


lemma appends_clipped_skip: "appends_clipped sw sh Inr"
  by (rule appends_clippedI) (rule exI [of _ "[]"], simp)
















text \<open>
  Claim C6. A call of \<open>draw_rounded_rect\<close> with a radius \<open>r\<close> of at least
  \<open>min w h div 2\<close> (so with every integer \<open>r \<ge> min(w, h) / 2\<close>) makes the same
  assignments to the buffer as the call with \<open>r = min w h div 2\<close>, and so fills the
  same set of pixels: the radius is clamped to \<open>min(r, w div 2, h div 2)\<close> first.
\<close>

theorem rounded_rect_radius_cap:
  assumes "min w h div 2 \<le> r"
  shows "draw_rounded_rect sw sh x y w h r c buf
         = draw_rounded_rect sw sh x y w h (min w h div 2) c buf
       \<and> filled_pixels sw sh (state_of (draw_rounded_rect sw sh x y w h r c buf)) c
         = filled_pixels sw sh
             (state_of (draw_rounded_rect sw sh x y w h (min w h div 2) c buf)) c"
proof -
  from assms have "min r (min w h div 2) = min w h div 2" by simp
  with draw_rounded_rect_clamp [of sw sh x y w h r c buf] show ?thesis by simp
qed

theorem rounded_rect_radius_cap_witness:
  "min 36 20 div 2 \<le> (15::int)
   \<and> draw_rounded_rect 240 320 5 5 36 20 15 (173, 216, 230) [Fill (0, 0, 0)]
     = draw_rounded_rect 240 320 5 5 36 20 10 (173, 216, 230) [Fill (0, 0, 0)]"
  using rounded_rect_radius_cap [of 36 20 15 240 320 5 5 "(173, 216, 230)" "[Fill (0, 0, 0)]"]
  by simp









subsection \<open>Blink\<close>

















end
